theory Spec2Isabelle
  imports Complex_Main "HOL-Library.Word"
begin

section \<open>Data model (types.ts)\<close>

text \<open>
  A JavaScript string is a sequence of UTF-16 code units and \<open>.length\<close> counts them.
  Text that comes from the audited page or from the caller is therefore a list of
  16-bit words. Text that the program itself builds from ASCII literals and decimal
  numbers is a HOL \<open>string\<close>. \<open>string | null\<close> and optional fields are \<open>option\<close>.

  Numbers: counts (\<open>Array.length\<close>, \<open>String.length\<close>) are \<open>nat\<close>; scores, which the
  program subtracts from and clamps, are \<open>int\<close>; timings in milliseconds are \<open>rat\<close>
  (the finite values of a JavaScript number; every quotient the program forms is a
  multiple of 1/4 of an integer below 401 and so exact in a double).
\<close>

type_synonym utf16 = "16 word list"

datatype issue_type = Error | Warning | Info
datatype category = Seo | Technical | Content | Performance
datatype level = High | Medium | Low
datatype audit_status = Running | Completed | Failed
datatype action_priority = Immediate | HighPriority | MediumPriority | LowPriority
datatype savings_type = Time | Bytes

record AuditOptions =
  includeScreenshots :: "bool option"
  mobileTest :: "bool option"
  deepScan :: "bool option"
  timeout :: "nat option"

record Issue =
  issue_id :: string
  issue_type :: issue_type
  issue_category :: category
  issue_title :: string
  issue_description :: string
  issue_element :: "string option"
  issue_location :: "string option"
  issue_impact :: level
  issue_recommendation :: string

record CategoryScore =
  score :: int
  maxScore :: int
  cat_issues :: "Issue list"

record Categories =
  cat_seo :: CategoryScore
  cat_technical :: CategoryScore
  cat_content :: CategoryScore
  cat_performance :: CategoryScore

record Recommendation =
  rec_id :: string
  rec_title :: string
  rec_description :: string
  rec_priority :: level
  rec_category :: category
  rec_actionItems :: "string list"
  rec_estimatedImpact :: level

text \<open>The anonymous shape \<open>{content, length, isOptimal}\<close> of the title and the meta description.\<close>

record TextTag =
  tag_content :: "utf16 option"
  tag_length :: nat
  isOptimal :: bool

record OpenGraph =
  og_title :: "utf16 option"
  og_description :: "utf16 option"
  og_image :: "utf16 option"
  og_url :: "utf16 option"
  og_type :: "utf16 option"

record HeadingStructure =
  h1 :: "utf16 list"
  h2 :: "utf16 list"
  h3 :: "utf16 list"
  h4 :: "utf16 list"
  h5 :: "utf16 list"
  h6 :: "utf16 list"

record SEOAnalysis =
  title :: TextTag
  metaDescription :: TextTag
  metaKeywords :: "utf16 option"
  viewport :: "utf16 option"
  charset :: "utf16 option"
  canonical :: "utf16 option"
  hreflang :: "utf16 list"
  robots :: "utf16 option"
  openGraph :: OpenGraph
  headingStructure :: HeadingStructure

record NetworkRequests =
  nr_total :: nat
  nr_failed :: nat
  nr_totalSize :: nat

record MobileOptimization =
  hasViewport :: bool
  isResponsive :: bool
  touchTargetSize :: bool

record Accessibility =
  acc_score :: int
  acc_issues :: "string list"

record Security =
  hasSSL :: bool
  mixedContent :: bool
  vulnerabilities :: "string list"

record TechnicalAnalysis =
  loadTime :: rat
  firstContentfulPaint :: rat
  largestContentfulPaint :: rat
  cumulativeLayoutShift :: rat
  timeToInteractive :: rat
  networkRequests :: NetworkRequests
  mobileOptimization :: MobileOptimization
  accessibility :: Accessibility
  security :: Security

record ImageStats =
  img_total :: nat
  withoutAlt :: nat
  withEmptyAlt :: nat
  lazyLoaded :: nat
  oversized :: nat

record LinkStats =
  link_total :: nat
  link_internal :: nat
  link_external :: nat
  link_broken :: nat
  link_nofollow :: nat
  link_empty :: nat

record StructuredData =
  hasStructuredData :: bool
  sd_types :: "string list"
  sd_errors :: "string list"

record ContentAnalysis =
  wordCount :: nat
  readabilityScore :: int
  images :: ImageStats
  links :: LinkStats
  structuredData :: StructuredData
  placeholderLinks :: "utf16 list option"
  hasSuspiciousTestimonials :: "bool option"

record PerformanceMetrics =
  m_firstContentfulPaint :: rat
  m_largestContentfulPaint :: rat
  m_firstInputDelay :: rat
  m_cumulativeLayoutShift :: rat
  m_speedIndex :: rat
  m_timeToInteractive :: rat

record Opportunity =
  opp_title :: string
  opp_description :: string
  opp_savings :: rat
  opp_type :: savings_type

record CodeResources =
  res_total :: nat
  res_unused :: nat
  res_blocking :: nat

record ImageResources =
  ir_total :: nat
  ir_unoptimized :: nat
  ir_totalSize :: nat

record Resources =
  javascript :: CodeResources
  css :: CodeResources
  res_images :: ImageResources

record PerformanceAnalysis =
  perf_overallScore :: int
  metrics :: PerformanceMetrics
  opportunities :: "Opportunity list"
  resources :: Resources

record Screenshots =
  desktop :: "string option"
  mobile :: "string option"
  shot_timestamp :: string

text \<open>
  The objects the heuristic generator builds (it declares them \<open>any[]\<close>): they carry the
  fields below and no \<open>priority\<close> or \<open>category\<close>.
\<close>

record DetailedIssue =
  di_id :: string
  di_title :: string
  di_description :: string
  di_impact :: string
  di_fix :: string
  di_businessImpact :: string
  di_codeExample :: "string option"

record ContentQualityAssessment =
  cqa_overallScore :: int
  cqa_issues :: "string list"
  cqa_recommendations :: "string list"

record BusinessImpactProjections =
  searchVisibilityIncrease :: string
  userExperienceImprovement :: string
  conversionRateImpact :: string

record ActionItem =
  ai_priority :: action_priority
  ai_task :: string
  ai_timeline :: string
  ai_codeExample :: "string option"
  ai_successMetrics :: "string list option"

record LLMAnalysisResult =
  criticalIssues :: "DetailedIssue list"
  highPriorityIssues :: "DetailedIssue list"
  mediumPriorityIssues :: "DetailedIssue list"
  contentQualityAssessment :: ContentQualityAssessment
  businessImpactProjections :: BusinessImpactProjections
  actionItems :: "ActionItem list"

record AuditResult =
  ar_id :: "string option"
  userId :: "string option"
  createdAt :: "string option"
  updatedAt :: "string option"
  status :: "audit_status option"
  processingTime :: "int option"
  url :: utf16
  timestamp :: string
  overallScore :: int
  categories :: Categories
  seo :: SEOAnalysis
  technical :: TechnicalAnalysis
  content :: ContentAnalysis
  performance :: PerformanceAnalysis
  screenshots :: Screenshots
  recommendations :: "Recommendation list"
  issues :: "Issue list"
  llmAnalysis :: "LLMAnalysisResult option"

section \<open>JavaScript primitives the program uses\<close>

text \<open>Decimal rendering of an integer, as a template literal produces it.\<close>

definition digit_char :: "nat \<Rightarrow> char" where
  "digit_char n = ''0123456789'' ! n"

fun show_nat :: "nat \<Rightarrow> string" where
  "show_nat n = (if n < 10 then [digit_char n] else show_nat (n div 10) @ [digit_char (n mod 10)])"

definition show_int :: "int \<Rightarrow> string" where
  "show_int i = (if i < 0 then ''-'' @ show_nat (nat (- i)) else show_nat (nat i))"

text \<open>\<open>Math.round\<close>: the nearest integer, a tie going up.\<close>

definition Math_round :: "rat \<Rightarrow> int" where
  "Math_round x = \<lfloor>x + 1 / 2\<rfloor>"

text \<open>Truthiness of a \<open>string | null\<close>: null and the empty string are falsy.\<close>

definition truthy :: "'a list option \<Rightarrow> bool" where
  "truthy s = (case s of None \<Rightarrow> False | Some t \<Rightarrow> t \<noteq> [])"

section \<open>Issue and recommendation deriver (playwright-audit.ts)\<close>

record DerivedFindings =
  df_issues :: "Issue list"
  df_recommendations :: "Recommendation list"

definition title_length_issue :: "SEOAnalysis \<Rightarrow> Issue" where
  "title_length_issue s = \<lparr>
     issue_id = ''title-length'',
     issue_type = Warning,
     issue_category = Seo,
     issue_title = ''Title tag length not optimal'',
     issue_description = ''Title is '' @ show_nat (tag_length (title s))
        @ '' characters. Optimal length is 30-60 characters.'',
     issue_element = None,
     issue_location = None,
     issue_impact = Medium,
     issue_recommendation =
       ''Optimize title tag length to 30-60 characters for better search visibility.'' \<rparr>"

definition meta_description_issue :: "SEOAnalysis \<Rightarrow> Issue" where
  "meta_description_issue s = \<lparr>
     issue_id = ''meta-description'',
     issue_type = Error,
     issue_category = Seo,
     issue_title = ''Meta description issues'',
     issue_description =
       (if truthy (tag_content (metaDescription s))
        then ''Meta description is '' @ show_nat (tag_length (metaDescription s))
          @ '' characters. Optimal length is 120-160 characters.''
        else ''Meta description is missing.''),
     issue_element = None,
     issue_location = None,
     issue_impact = High,
     issue_recommendation = ''Add or optimize meta description to 120-160 characters.'' \<rparr>"

definition missing_h1_issue :: Issue where
  "missing_h1_issue = \<lparr>
     issue_id = ''missing-h1'',
     issue_type = Error,
     issue_category = Seo,
     issue_title = ''Missing H1 tag'',
     issue_description = ''Page does not have an H1 tag.'',
     issue_element = None,
     issue_location = None,
     issue_impact = High,
     issue_recommendation = ''Add a descriptive H1 tag to clearly identify the page topic.'' \<rparr>"

definition multiple_h1_issue :: "SEOAnalysis \<Rightarrow> Issue" where
  "multiple_h1_issue s = \<lparr>
     issue_id = ''multiple-h1'',
     issue_type = Warning,
     issue_category = Seo,
     issue_title = ''Multiple H1 tags'',
     issue_description = ''Page has '' @ show_nat (length (h1 (headingStructure s))) @ '' H1 tags.'',
     issue_element = None,
     issue_location = None,
     issue_impact = Medium,
     issue_recommendation = ''Use only one H1 tag per page for better SEO structure.'' \<rparr>"

definition images_without_alt_issue :: "ContentAnalysis \<Rightarrow> Issue" where
  "images_without_alt_issue c = \<lparr>
     issue_id = ''images-without-alt'',
     issue_type = Warning,
     issue_category = Content,
     issue_title = ''Images without alt text'',
     issue_description = show_nat (withoutAlt (images c)) @ '' images are missing alt text.'',
     issue_element = None,
     issue_location = None,
     issue_impact = Medium,
     issue_recommendation =
       ''Add descriptive alt text to all images for accessibility and SEO.'' \<rparr>"

definition empty_links_issue :: "ContentAnalysis \<Rightarrow> Issue" where
  "empty_links_issue c = \<lparr>
     issue_id = ''empty-links'',
     issue_type = Warning,
     issue_category = Content,
     issue_title = ''Empty link text'',
     issue_description = show_nat (link_empty (links c)) @ '' links have empty or missing text.'',
     issue_element = None,
     issue_location = None,
     issue_impact = Medium,
     issue_recommendation =
       ''Add descriptive text to all links for better user experience and SEO.'' \<rparr>"

definition no_ssl_issue :: Issue where
  "no_ssl_issue = \<lparr>
     issue_id = ''no-ssl'',
     issue_type = Error,
     issue_category = Technical,
     issue_title = ''No SSL certificate'',
     issue_description = ''Website is not using HTTPS.'',
     issue_element = None,
     issue_location = None,
     issue_impact = High,
     issue_recommendation =
       ''Install SSL certificate to secure the website and improve search rankings.'' \<rparr>"

definition no_viewport_issue :: Issue where
  "no_viewport_issue = \<lparr>
     issue_id = ''no-viewport'',
     issue_type = Error,
     issue_category = Technical,
     issue_title = ''Missing viewport meta tag'',
     issue_description = ''Page does not have a viewport meta tag.'',
     issue_element = None,
     issue_location = None,
     issue_impact = High,
     issue_recommendation = ''Add viewport meta tag for proper mobile display.'' \<rparr>"

definition slow_loading_issue :: "TechnicalAnalysis \<Rightarrow> Issue" where
  "slow_loading_issue t = \<lparr>
     issue_id = ''slow-loading'',
     issue_type = Warning,
     issue_category = Performance,
     issue_title = ''Slow page load time'',
     issue_description = ''Page loads in '' @ show_int (Math_round (loadTime t)) @ ''ms.'',
     issue_element = None,
     issue_location = None,
     issue_impact = Medium,
     issue_recommendation =
       ''Optimize images, minify CSS/JS, and use caching to improve load times.'' \<rparr>"

definition seo_optimization :: Recommendation where
  "seo_optimization = \<lparr>
     rec_id = ''seo-optimization'',
     rec_title = ''SEO Optimization'',
     rec_description =
       ''Improve search engine visibility with better meta tags and content structure.'',
     rec_priority = High,
     rec_category = Seo,
     rec_actionItems = [''Optimize title tag length'', ''Add or improve meta description'',
       ''Ensure single H1 tag per page'', ''Add Open Graph tags''],
     rec_estimatedImpact = High \<rparr>"

definition technical_improvements :: Recommendation where
  "technical_improvements = \<lparr>
     rec_id = ''technical-improvements'',
     rec_title = ''Technical Improvements'',
     rec_description = ''Enhance website security and mobile optimization.'',
     rec_priority = Medium,
     rec_category = Technical,
     rec_actionItems = [''Implement HTTPS if not already'', ''Add viewport meta tag'',
       ''Optimize mobile experience'', ''Fix broken links''],
     rec_estimatedImpact = Medium \<rparr>"

text \<open>\<open>push_if b x xs\<close> is \<open>if (b) xs.push(x)\<close>.\<close>

definition push_if :: "bool \<Rightarrow> 'a \<Rightarrow> 'a list \<Rightarrow> 'a list" where
  "push_if b x xs = (if b then xs @ [x] else xs)"

definition analyzeIssuesAndRecommendations ::
  "SEOAnalysis \<Rightarrow> TechnicalAnalysis \<Rightarrow> ContentAnalysis \<Rightarrow> PerformanceAnalysis \<Rightarrow> DerivedFindings" where
  "analyzeIssuesAndRecommendations s t c p =
    (let issues0 = [];
         recommendations0 = [];
         issues1 = push_if (\<not> isOptimal (title s)) (title_length_issue s) issues0;
         issues2 = push_if (\<not> isOptimal (metaDescription s)) (meta_description_issue s) issues1;
         issues3 = push_if (length (h1 (headingStructure s)) = 0) missing_h1_issue issues2;
         issues4 = push_if (length (h1 (headingStructure s)) > 1) (multiple_h1_issue s) issues3;
         issues5 = push_if (withoutAlt (images c) > 0) (images_without_alt_issue c) issues4;
         issues6 = push_if (link_empty (links c) > 0) (empty_links_issue c) issues5;
         issues7 = push_if (\<not> hasSSL (security t)) no_ssl_issue issues6;
         issues8 = push_if (\<not> hasViewport (mobileOptimization t)) no_viewport_issue issues7;
         issues9 = push_if (loadTime t > 3000) (slow_loading_issue t) issues8;
         recommendations1 = recommendations0 @ [seo_optimization];
         recommendations2 = recommendations1 @ [technical_improvements]
     in \<lparr> df_issues = issues9, df_recommendations = recommendations2 \<rparr>)"

section \<open>Scoring engine (playwright-audit.ts)\<close>

definition initial_categories :: Categories where
  "initial_categories = \<lparr>
     cat_seo = \<lparr> score = 100, maxScore = 100, cat_issues = [] \<rparr>,
     cat_technical = \<lparr> score = 100, maxScore = 100, cat_issues = [] \<rparr>,
     cat_content = \<lparr> score = 100, maxScore = 100, cat_issues = [] \<rparr>,
     cat_performance = \<lparr> score = 100, maxScore = 100, cat_issues = [] \<rparr> \<rparr>"

text \<open>\<open>categories[k]\<close>, read and written.\<close>

fun get_category :: "Categories \<Rightarrow> category \<Rightarrow> CategoryScore" where
  "get_category cs Seo = cat_seo cs"
| "get_category cs Technical = cat_technical cs"
| "get_category cs Content = cat_content cs"
| "get_category cs Performance = cat_performance cs"

fun set_category :: "Categories \<Rightarrow> category \<Rightarrow> CategoryScore \<Rightarrow> Categories" where
  "set_category cs Seo v = cs\<lparr>cat_seo := v\<rparr>"
| "set_category cs Technical v = cs\<lparr>cat_technical := v\<rparr>"
| "set_category cs Content v = cs\<lparr>cat_content := v\<rparr>"
| "set_category cs Performance v = cs\<lparr>cat_performance := v\<rparr>"

definition penalty_of :: "level \<Rightarrow> int" where
  "penalty_of i = (if i = High then 20 else if i = Medium then 10 else 5)"

text \<open>The body of the \<open>forEach\<close> callback.\<close>

definition score_issue :: "Categories \<Rightarrow> Issue \<Rightarrow> Categories" where
  "score_issue cs issue =
    (let category = get_category cs (issue_category issue);
         category1 = category\<lparr>cat_issues := cat_issues category @ [issue]\<rparr>;
         penalty = penalty_of (issue_impact issue);
         category2 = category1\<lparr>score := max 0 (score category1 - penalty)\<rparr>
     in set_category cs (issue_category issue) category2)"

definition calculateCategoryScores :: "Issue list \<Rightarrow> Categories" where
  "calculateCategoryScores issues_in = foldl score_issue initial_categories issues_in"

text \<open>\<open>Object.values\<close> and \<open>Object.keys\<close> of the categories object, in insertion order.\<close>

definition Object_values :: "Categories \<Rightarrow> CategoryScore list" where
  "Object_values cs = [cat_seo cs, cat_technical cs, cat_content cs, cat_performance cs]"

definition Object_keys :: "Categories \<Rightarrow> category list" where
  "Object_keys cs = [Seo, Technical, Content, Performance]"

definition calculateOverallScore :: "Categories \<Rightarrow> int" where
  "calculateOverallScore cs =
    (let totalScore = foldl (\<lambda>sum cat. sum + score cat) 0 (Object_values cs)
     in Math_round (of_int totalScore / of_nat (length (Object_keys cs))))"

section \<open>Extraction of the SEO bundle (playwright-audit.ts, analyzeSEO)\<close>

text \<open>
  What the loaded page answers to the queries of \<open>analyzeSEO\<close>. A \<open>$eval\<close> on a selector
  that matches nothing throws and the \<open>catch\<close> turns that into null; \<open>getAttribute\<close> of an
  absent attribute is null: both are \<open>None\<close> here.
\<close>

datatype heading_tag = H1 | H2 | H3 | H4 | H5 | H6

record PageDom =
  page_title :: utf16
  meta_description :: "utf16 option"
  meta_keywords :: "utf16 option"
  meta_viewport :: "utf16 option"
  meta_charset :: "utf16 option"
  link_canonical :: "utf16 option"
  meta_robots :: "utf16 option"
  alternate_hreflang :: "utf16 option list"
  ogp_title :: "utf16 option"
  ogp_description :: "utf16 option"
  ogp_image :: "utf16 option"
  ogp_url :: "utf16 option"
  ogp_type :: "utf16 option"
  heading_elements :: "(heading_tag \<times> utf16) list"

definition headings_of :: "heading_tag \<Rightarrow> (heading_tag \<times> utf16) list \<Rightarrow> utf16 list" where
  "headings_of tg hs = map snd (filter (\<lambda>h. fst h = tg) hs)"

definition analyzeSEO :: "PageDom \<Rightarrow> SEOAnalysis" where
  "analyzeSEO page =
    (let title_text = page_title page;
         metaDescription_text = meta_description page;
         headings = heading_elements page
     in \<lparr>
       title = \<lparr>
         tag_content = Some title_text,
         tag_length = length title_text,
         isOptimal = (length title_text \<ge> 30 \<and> length title_text \<le> 60) \<rparr>,
       metaDescription = \<lparr>
         tag_content = metaDescription_text,
         tag_length = (case metaDescription_text of None \<Rightarrow> 0 | Some d \<Rightarrow> length d),
         isOptimal =
           (if truthy metaDescription_text
            then length (the metaDescription_text) \<ge> 120 \<and> length (the metaDescription_text) \<le> 160
            else False) \<rparr>,
       metaKeywords = meta_keywords page,
       viewport = meta_viewport page,
       charset = meta_charset page,
       canonical = link_canonical page,
       hreflang = map the (filter truthy (alternate_hreflang page)),
       robots = meta_robots page,
       openGraph = \<lparr>
         og_title = ogp_title page,
         og_description = ogp_description page,
         og_image = ogp_image page,
         og_url = ogp_url page,
         og_type = ogp_type page \<rparr>,
       headingStructure = \<lparr>
         h1 = headings_of H1 headings,
         h2 = headings_of H2 headings,
         h3 = headings_of H3 headings,
         h4 = headings_of H4 headings,
         h5 = headings_of H5 headings,
         h6 = headings_of H6 headings \<rparr> \<rparr>)"

section \<open>Heuristic deep-analysis generator (llm-service.ts)\<close>

text \<open>The guard \<open>c.placeholderLinks && c.placeholderLinks.length > 0\<close>.\<close>

definition hasPlaceholderLinks :: "ContentAnalysis \<Rightarrow> bool" where
  "hasPlaceholderLinks c = (case placeholderLinks c of None \<Rightarrow> False | Some pl \<Rightarrow> length pl > 0)"

text \<open>\<open>c.placeholderLinks.length\<close>, read only under that guard.\<close>

definition placeholderLinks_length :: "ContentAnalysis \<Rightarrow> nat" where
  "placeholderLinks_length c = length (the (placeholderLinks c))"

text \<open>Truthiness of the optional flag \<open>hasSuspiciousTestimonials\<close>.\<close>

definition suspiciousTestimonials :: "ContentAnalysis \<Rightarrow> bool" where
  "suspiciousTestimonials c = (hasSuspiciousTestimonials c = Some True)"

definition extractCriticalIssues :: "AuditResult \<Rightarrow> DetailedIssue list" where
  \<open>extractCriticalIssues a =
    (let critical0 = [];
         critical1 = push_if (\<not> truthy (tag_content (metaDescription (seo a))))
           \<lparr> di_id = ''missing-meta-description'',
             di_title = ''Meta Description Missing'',
             di_description = ''No <meta name="description"> tag found'',
             di_impact = ''Poor search engine visibility and click-through rates'',
             di_fix = ''Add compelling 150-160 character descriptions for each page'',
             di_businessImpact = ''High - affects search rankings and CTR'',
             di_codeExample =
               Some ''<meta name="description" content="Your compelling description here">'' \<rparr>
           critical0;
         critical2 = push_if (\<not> truthy (canonical (seo a)))
           \<lparr> di_id = ''missing-canonical'',
             di_title = ''Canonical Links Missing'',
             di_description = ''No <link rel="canonical"> tags found'',
             di_impact = ''Potential duplicate content issues'',
             di_fix = ''Add canonical URLs to all pages'',
             di_businessImpact = ''Medium - affects search indexing'',
             di_codeExample = Some ''<link rel="canonical" href="https://example.com/page">'' \<rparr>
           critical1;
         critical3 = push_if (\<not> truthy (og_title (openGraph (seo a))))
           \<lparr> di_id = ''missing-open-graph'',
             di_title = ''Open Graph Meta Tags Missing'',
             di_description = ''No Facebook/social media sharing optimization. Missing: og:title, og:description, og:image, og:url'',
             di_impact = ''Poor social media sharing appearance'',
             di_fix = ''Implement complete OG tag set'',
             di_businessImpact = ''Medium - affects social media reach'',
             di_codeExample = Some (''<meta property="og:title" content="[Page title]">\<newline>''
               @ ''<meta property="og:description" content="[Page description]">\<newline>''
               @ ''<meta property="og:image" content="[Social sharing image URL]">\<newline>''
               @ ''<meta property="og:url" content="[Current page URL]">\<newline>''
               @ ''<meta property="og:type" content="website">'') \<rparr>
           critical2;
         critical4 = push_if (\<not> truthy (viewport (seo a)))
           \<lparr> di_id = ''missing-viewport'',
             di_title = ''Viewport Meta Tag Missing'',
             di_description = ''Need to verify mobile viewport configuration'',
             di_impact = ''Poor mobile experience and rankings'',
             di_fix = ''Add viewport meta tag for proper mobile display'',
             di_businessImpact = ''High - affects mobile SEO'',
             di_codeExample =
               Some ''<meta name="viewport" content="width=device-width, initial-scale=1">'' \<rparr>
           critical3
     in critical4)\<close>

definition extractHighPriorityIssues :: "AuditResult \<Rightarrow> DetailedIssue list" where
  \<open>extractHighPriorityIssues a =
    (let high0 = [];
         high1 = push_if (hasPlaceholderLinks (content a))
           \<lparr> di_id = ''broken-navigation'',
             di_title = ''Broken Navigation Links'',
             di_description = show_nat (placeholderLinks_length (content a))
               @ '' navigation links point to placeholders (#, #_, example.com)'',
             di_impact = ''Users cannot navigate the main site sections'',
             di_fix = ''Replace placeholder links with actual URLs'',
             di_businessImpact = ''High - affects user experience and engagement'',
             di_codeExample = Some (''<!-- Replace these: -->\<newline>''
               @ ''<a href="#_">What We Do</a>\<newline>''
               @ ''<!-- With actual URLs: -->\<newline>''
               @ ''<a href="/services">What We Do</a>'') \<rparr>
           high0;
         high2 = push_if (\<not> isOptimal (title (seo a)))
           \<lparr> di_id = ''title-optimization'',
             di_title = ''Title Tag Not Optimal'',
             di_description = ''Title is '' @ show_nat (tag_length (title (seo a)))
               @ '' characters. Optimal length is 30-60 characters'',
             di_impact = ''Suboptimal search visibility and click-through rates'',
             di_fix = ''Optimize title tag to 30-60 characters'',
             di_businessImpact = ''Medium - affects search rankings and CTR'',
             di_codeExample = None \<rparr>
           high1;
         high3 = push_if (withoutAlt (images (content a)) > 0)
           \<lparr> di_id = ''images-accessibility'',
             di_title = ''Images Without Alt Text'',
             di_description = show_nat (withoutAlt (images (content a)))
               @ '' images are missing descriptive alt text'',
             di_impact = ''Poor accessibility for screen readers and SEO'',
             di_fix = ''Add descriptive alt text to all images'',
             di_businessImpact = ''Medium - affects accessibility compliance and SEO'',
             di_codeExample =
               Some ''<img src="logo.png" alt="Company Name - Professional Services">'' \<rparr>
           high2;
         high4 = push_if (\<not> hasSSL (security (technical a)))
           \<lparr> di_id = ''no-ssl'',
             di_title = ''No SSL Certificate'',
             di_description = ''Website is not using HTTPS'',
             di_impact = ''Security warnings and poor search rankings'',
             di_fix = ''Install SSL certificate and redirect HTTP to HTTPS'',
             di_businessImpact = ''High - affects trust and search rankings'',
             di_codeExample = None \<rparr>
           high3
     in high4)\<close>

definition extractMediumPriorityIssues :: "AuditResult \<Rightarrow> DetailedIssue list" where
  \<open>extractMediumPriorityIssues a =
    (let medium0 = [];
         medium1 = push_if (suspiciousTestimonials (content a))
           \<lparr> di_id = ''fake-testimonials'',
             di_title = ''Inappropriate Testimonials'',
             di_description = ''Testimonials contain clearly fake/test content with celebrity names'',
             di_impact = ''Damages credibility and professionalism'',
             di_fix = ''Replace with real client testimonials or remove section'',
             di_businessImpact = ''Medium - affects brand credibility'',
             di_codeExample = None \<rparr>
           medium0;
         medium2 = push_if (loadTime (technical a) > 3000)
           \<lparr> di_id = ''slow-loading'',
             di_title = ''Slow Page Load Time'',
             di_description = ''Page loads in '' @ show_int (Math_round (loadTime (technical a))) @ ''ms'',
             di_impact = ''Poor user experience and search rankings'',
             di_fix = ''Optimize images, minify CSS/JS, and use caching'',
             di_businessImpact = ''Medium - affects user engagement'',
             di_codeExample = None \<rparr>
           medium1;
         medium3 = push_if (wordCount (content a) < 300)
           \<lparr> di_id = ''thin-content'',
             di_title = ''Thin Content'',
             di_description = ''Page has only '' @ show_nat (wordCount (content a)) @ '' words'',
             di_impact = ''Poor search engine rankings for competitive terms'',
             di_fix = ''Add more comprehensive, valuable content'',
             di_businessImpact = ''Medium - affects SEO performance'',
             di_codeExample = None \<rparr>
           medium2
     in medium3)\<close>

definition calculateContentQualityScore :: "AuditResult \<Rightarrow> int" where
  "calculateContentQualityScore a =
    (let score0 = 100;
         score1 = (if \<not> truthy (tag_content (metaDescription (seo a))) then score0 - 20 else score0);
         score2 = (if hasPlaceholderLinks (content a)
                   then score1 - int (placeholderLinks_length (content a)) * 5 else score1);
         score3 = (if withoutAlt (images (content a)) > 0
                   then score2 - int (withoutAlt (images (content a))) * 3 else score2);
         score4 = (if suspiciousTestimonials (content a) then score3 - 15 else score3)
     in max 0 (min 100 score4))"

definition extractContentIssues :: "AuditResult \<Rightarrow> string list" where
  "extractContentIssues a =
    (let issues0 = [];
         issues1 = push_if (\<not> truthy (tag_content (metaDescription (seo a))))
           ''Missing meta description tags'' issues0;
         issues2 = push_if (hasPlaceholderLinks (content a))
           (show_nat (placeholderLinks_length (content a)) @ '' broken/placeholder links detected'')
           issues1;
         issues3 = push_if (withoutAlt (images (content a)) > 0)
           (show_nat (withoutAlt (images (content a))) @ '' images missing alt text'') issues2;
         issues4 = push_if (suspiciousTestimonials (content a)) ''Fake testimonials detected'' issues3
     in issues4)"

definition extractContentRecommendations :: "AuditResult \<Rightarrow> string list" where
  "extractContentRecommendations a =
    [''Add compelling meta descriptions to all pages'',
     ''Fix all broken and placeholder links'',
     ''Add descriptive alt text to all images'',
     ''Replace test content with real testimonials'',
     ''Implement proper heading hierarchy'']"

definition calculateSEOImpact :: "AuditResult \<Rightarrow> string" where
  "calculateSEOImpact a =
    (let criticalIssues_n = length (extractCriticalIssues a)
     in if criticalIssues_n \<ge> 3 then ''30-50% with proper meta tags and fixes''
        else if criticalIssues_n \<ge> 2 then ''20-30% with SEO improvements''
        else ''10-20% with minor optimizations'')"

definition calculateUXImpact :: "AuditResult \<Rightarrow> string" where
  "calculateUXImpact a =
    (let hasNavigationIssues = hasPlaceholderLinks (content a);
         hasPerformanceIssues = (loadTime (technical a) > 3000)
     in if hasNavigationIssues \<and> hasPerformanceIssues
          then ''High - functional navigation and performance fixes''
        else if hasNavigationIssues
          then ''Medium - functional navigation will reduce bounce rate''
        else if hasPerformanceIssues
          then ''Medium - performance improvements will help engagement''
        else ''Low to Medium - minor improvements'')"

definition calculateConversionImpact :: "AuditResult \<Rightarrow> string" where
  "calculateConversionImpact a =
    (let hasContactIssues = hasPlaceholderLinks (content a);
         hasCredibilityIssues = suspiciousTestimonials (content a)
     in if hasContactIssues \<and> hasCredibilityIssues
          then ''Medium to High - working contact methods and credible testimonials''
        else if hasContactIssues
          then ''Medium - working contact methods will improve lead generation''
        else if hasCredibilityIssues
          then ''Medium - professional testimonials will increase credibility''
        else ''Low to Medium - minor conversion improvements'')"

definition extractActionItems :: "AuditResult \<Rightarrow> ActionItem list" where
  \<open>extractActionItems a =
    (let actionItems0 = [];
         actionItems1 = push_if (\<not> truthy (tag_content (metaDescription (seo a))))
           \<lparr> ai_priority = Immediate,
             ai_task = ''Add meta descriptions to all pages'',
             ai_timeline = ''Today'',
             ai_codeExample =
               Some ''<meta name="description" content="Compelling 150-160 character description">'',
             ai_successMetrics =
               Some [''Improved search result snippets'', ''Higher click-through rates''] \<rparr>
           actionItems0;
         actionItems2 = push_if (hasPlaceholderLinks (content a))
           \<lparr> ai_priority = Immediate,
             ai_task = ''Fix main navigation links - replace #_ with actual URLs'',
             ai_timeline = ''Today'',
             ai_codeExample = Some ''<a href="/services">What We Do</a>'',
             ai_successMetrics = Some [''Functional navigation'', ''Reduced bounce rate''] \<rparr>
           actionItems1;
         actionItems3 = push_if (suspiciousTestimonials (content a))
           \<lparr> ai_priority = Immediate,
             ai_task = ''Replace fake testimonials with real content or remove'',
             ai_timeline = ''Today'',
             ai_codeExample = None,
             ai_successMetrics = Some [''Improved credibility'', ''Better user trust''] \<rparr>
           actionItems2;
         actionItems4 = push_if (\<not> truthy (og_title (openGraph (seo a))))
           \<lparr> ai_priority = HighPriority,
             ai_task = ''Implement Open Graph tags for social sharing'',
             ai_timeline = ''This week'',
             ai_codeExample = Some (''<meta property="og:title" content="Page Title">\<newline>''
               @ ''<meta property="og:description" content="Page Description">''),
             ai_successMetrics = Some [''Better social sharing'', ''Increased social engagement''] \<rparr>
           actionItems3;
         actionItems5 = push_if (withoutAlt (images (content a)) > 0)
           \<lparr> ai_priority = HighPriority,
             ai_task = ''Audit image alt attributes'',
             ai_timeline = ''This week'',
             ai_codeExample = Some ''<img src="image.jpg" alt="Descriptive alt text">'',
             ai_successMetrics = Some [''Better accessibility'', ''Improved SEO''] \<rparr>
           actionItems4;
         actionItems6 = actionItems5 @
           [\<lparr> ai_priority = MediumPriority,
              ai_task = ''Content proofreading and corrections'',
              ai_timeline = ''This month'',
              ai_codeExample = None,
              ai_successMetrics = Some [''Professional appearance'', ''Better user experience''] \<rparr>];
         actionItems7 = actionItems6 @
           [\<lparr> ai_priority = MediumPriority,
              ai_task = ''Implement structured data markup'',
              ai_timeline = ''This month'',
              ai_codeExample = None,
              ai_successMetrics = Some [''Rich search results'', ''Better search visibility''] \<rparr>]
     in actionItems7)\<close>

definition getFallbackAnalysis :: "AuditResult \<Rightarrow> LLMAnalysisResult" where
  "getFallbackAnalysis a =
    \<lparr> criticalIssues = extractCriticalIssues a,
      highPriorityIssues = extractHighPriorityIssues a,
      mediumPriorityIssues = extractMediumPriorityIssues a,
      contentQualityAssessment =
        \<lparr> cqa_overallScore = calculateContentQualityScore a,
          cqa_issues = extractContentIssues a,
          cqa_recommendations = extractContentRecommendations a \<rparr>,
      businessImpactProjections =
        \<lparr> searchVisibilityIncrease = calculateSEOImpact a,
          userExperienceImprovement = calculateUXImpact a,
          conversionRateImpact = calculateConversionImpact a \<rparr>,
      actionItems = extractActionItems a \<rparr>"

section \<open>The generative-analysis path (llm-service.ts)\<close>

text \<open>A thrown \<open>Error\<close> with its message.\<close>

datatype exn = JsError string

text \<open>
  The collaborator and the library calls around it are parameters. \<open>fetch\<close> either
  rejects (transport error, time-out) or answers; of an answer the program reads
  \<open>ok\<close>, \<open>status\<close> and, through \<open>response.json()\<close>, \<open>data.content[0].text\<close>, which is
  \<open>None\<close> when reading it throws. \<open>match_json\<close> is the text
  \<open>jsonMatch[1] || jsonMatch[0]\<close> that the two regular expressions select, \<open>None\<close> when
  neither matches; \<open>JSON_parse\<close> is \<open>None\<close> when \<open>JSON.parse\<close> throws.
\<close>

record FetchResponse =
  resp_ok :: bool
  resp_status :: nat
  resp_text :: "utf16 option"

datatype fetch_outcome = Rejected | Responded FetchResponse

record LLMService =
  apiKey :: string
  baseUrl :: string

record Collaborator =
  fetch :: "string \<Rightarrow> string \<Rightarrow> AuditResult \<Rightarrow> utf16 \<Rightarrow> fetch_outcome"
  match_json :: "utf16 \<Rightarrow> utf16 option"
  JSON_parse :: "utf16 \<Rightarrow> LLMAnalysisResult option"

definition parseAnalysisResponse :: "Collaborator \<Rightarrow> utf16 \<Rightarrow> AuditResult \<Rightarrow> LLMAnalysisResult" where
  "parseAnalysisResponse env response a =
    (case match_json env response of
       Some text \<Rightarrow>
         (case JSON_parse env text of
            Some parsed \<Rightarrow> parsed
          | None \<Rightarrow> getFallbackAnalysis a)
     | None \<Rightarrow> getFallbackAnalysis a)"

text \<open>
  \<open>analyzeAuditResults\<close> as it runs: its first statement returns the heuristic analysis.
\<close>

definition analyzeAuditResults ::
  "LLMService \<Rightarrow> Collaborator \<Rightarrow> AuditResult \<Rightarrow> utf16 \<Rightarrow> exn + LLMAnalysisResult" where
  "analyzeAuditResults svc env auditResult pageContent = Inr (getFallbackAnalysis auditResult)"

text \<open>
  The statements that follow that return in the source, which call the collaborator: the
  \<open>catch\<close> around them turns every throw into the heuristic analysis.
\<close>

definition analyzeAuditResults_generative ::
  "LLMService \<Rightarrow> Collaborator \<Rightarrow> AuditResult \<Rightarrow> utf16 \<Rightarrow> exn + LLMAnalysisResult" where
  "analyzeAuditResults_generative svc env auditResult pageContent =
    (if apiKey svc = [] then Inr (getFallbackAnalysis auditResult)
     else
       (case fetch env (baseUrl svc) (apiKey svc) auditResult pageContent of
          Rejected \<Rightarrow> Inr (getFallbackAnalysis auditResult)
        | Responded response \<Rightarrow>
            if \<not> resp_ok response then Inr (getFallbackAnalysis auditResult)
            else
              (case resp_text response of
                 None \<Rightarrow> Inr (getFallbackAnalysis auditResult)
               | Some text \<Rightarrow> Inr (parseAnalysisResponse env text auditResult))))"

section \<open>In-memory storage (memory-storage.ts)\<close>

text \<open>
  The \<open>Map\<close> of stored records. \<open>generateId()\<close> and \<open>new Date().toISOString()\<close> read the
  clock and the random generator: their values are parameters of \<open>saveAudit\<close>.
\<close>

type_synonym audit_map = "string \<rightharpoonup> AuditResult"

definition saveAudit :: "string \<Rightarrow> string \<Rightarrow> audit_map \<Rightarrow> AuditResult \<Rightarrow> string \<times> audit_map" where
  "saveAudit generated_id now audits audit =
    (let new_id = generated_id;
         auditWithMetadata = audit\<lparr> ar_id := Some new_id, createdAt := Some now, status := Some Completed \<rparr>
     in (new_id, audits(new_id \<mapsto> auditWithMetadata)))"

definition getAudit :: "audit_map \<Rightarrow> string \<Rightarrow> AuditResult option" where
  "getAudit audits k = audits k"

text \<open>\<open>Map.delete\<close> returns whether the key was present.\<close>

definition deleteAudit :: "audit_map \<Rightarrow> string \<Rightarrow> bool \<times> audit_map" where
  "deleteAudit audits k = (audits k \<noteq> None, audits(k := None))"

section \<open>The audit run (playwright-audit.ts, runPlaywrightAudit)\<close>

text \<open>
  The browser collaborator. Every call that the run awaits without a \<open>catch\<close> of its own
  can reject, and a rejection ends the run: obtaining the shared browser, opening the
  context and the page, the navigation, the wait for the body, \<open>page.title()\<close> in
  \<open>analyzeSEO\<close>, the \<open>page.evaluate\<close> and \<open>page.$\<close> calls of \<open>analyzeTechnical\<close>,
  \<open>analyzeContent\<close> and \<open>analyzePerformance\<close>, the two screenshots, the change of the
  viewport between them and the closing of the context. Each is the error thrown, if any.
  \<open>page_dom\<close> and the three bundles are what the analyses return when they do not throw;
  the screenshots are base64 text; the clock readings are given. What the run does to the
  browser is the list of actions it returns.
\<close>

datatype browser_action =
    GetBrowser | NewContext | NewPage | Goto utf16 nat | WaitForSelector
  | QuerySEO | QueryTechnical | QueryContent | QueryPerformance
  | Screenshot | SetViewportSize nat nat | CloseContext

record Browser =
  getBrowser :: "exn option"
  newContext :: "exn option"
  newPage :: "exn option"
  goto :: "utf16 \<Rightarrow> nat \<Rightarrow> exn option"
  waitForSelector :: "exn option"
  analyzeSEO_throws :: "exn option"
  analyzeTechnical_throws :: "exn option"
  analyzeContent_throws :: "exn option"
  analyzePerformance_throws :: "exn option"
  page_dom :: PageDom
  technical_bundle :: TechnicalAnalysis
  content_bundle :: ContentAnalysis
  performance_bundle :: PerformanceAnalysis
  desktop_png :: "exn + string"
  setViewportSize :: "exn option"
  mobile_png :: "exn + string"
  closeContext :: "exn option"
  date_default :: string
  date_capture :: string
  date_result :: string
  elapsed :: int

text \<open>\<open>options?.timeout || 30000\<close>.\<close>

definition navigation_timeout :: "AuditOptions option \<Rightarrow> nat" where
  "navigation_timeout options =
    (case options of
       None \<Rightarrow> 30000
     | Some opts \<Rightarrow> (case timeout opts of None \<Rightarrow> 30000 | Some t \<Rightarrow> if t = 0 then 30000 else t))"

text \<open>\<open>options?.includeScreenshots !== false\<close>.\<close>

definition wantsScreenshots :: "AuditOptions option \<Rightarrow> bool" where
  "wantsScreenshots options =
    (case options of
       None \<Rightarrow> True
     | Some opts \<Rightarrow> includeScreenshots opts \<noteq> Some False)"

text \<open>
  A sequence of awaited calls, each with the action it performs: they run in order, and the
  first that throws ends the sequence with its error.
\<close>

fun run_steps :: "(exn option \<times> browser_action) list \<Rightarrow> exn option \<times> browser_action list" where
  "run_steps [] = (None, [])"
| "run_steps ((outcome, act) # rest) =
     (case outcome of
        Some e \<Rightarrow> (Some e, [act])
      | None \<Rightarrow> (case run_steps rest of (res, acts) \<Rightarrow> (res, act # acts)))"

definition captureScreenshots :: "Browser \<Rightarrow> (exn + Screenshots) \<times> browser_action list" where
  "captureScreenshots b =
    (case desktop_png b of
       Inl e \<Rightarrow> (Inl e, [Screenshot])
     | Inr desktopScreenshot \<Rightarrow>
         (case setViewportSize b of
            Some e \<Rightarrow> (Inl e, [Screenshot, SetViewportSize 375 667])
          | None \<Rightarrow>
              (case mobile_png b of
                 Inl e \<Rightarrow> (Inl e, [Screenshot, SetViewportSize 375 667, Screenshot])
               | Inr mobileScreenshot \<Rightarrow>
                   (Inr \<lparr> desktop = Some (''data:image/png;base64,'' @ desktopScreenshot),
                          mobile = Some (''data:image/png;base64,'' @ mobileScreenshot),
                          shot_timestamp = date_capture b \<rparr>,
                    [Screenshot, SetViewportSize 375 667, Screenshot]))))"

definition assemble :: "Browser \<Rightarrow> utf16 \<Rightarrow> Screenshots \<Rightarrow> AuditResult" where
  "assemble b url_in shots =
    (let seoAnalysis = analyzeSEO (page_dom b);
         technicalAnalysis = technical_bundle b;
         contentAnalysis = content_bundle b;
         performanceAnalysis = performance_bundle b;
         findings = analyzeIssuesAndRecommendations seoAnalysis technicalAnalysis
                      contentAnalysis performanceAnalysis;
         categories_out = calculateCategoryScores (df_issues findings);
         overallScore_out = calculateOverallScore categories_out
     in \<lparr> ar_id = None, userId = None, createdAt = None, updatedAt = None, status = None,
          processingTime = Some (elapsed b),
          url = url_in,
          timestamp = date_result b,
          overallScore = overallScore_out,
          categories = categories_out,
          seo = seoAnalysis,
          technical = technicalAnalysis,
          content = contentAnalysis,
          performance = performanceAnalysis,
          screenshots = shots,
          recommendations = df_recommendations findings,
          issues = df_issues findings,
          llmAnalysis = None \<rparr>)"

text \<open>The body of the \<open>try\<close> block.\<close>

definition audit_page ::
  "Browser \<Rightarrow> utf16 \<Rightarrow> AuditOptions option \<Rightarrow> (exn + AuditResult) \<times> browser_action list" where
  "audit_page b url_in options =
    (case run_steps
            [(goto b url_in (navigation_timeout options), Goto url_in (navigation_timeout options)),
             (waitForSelector b, WaitForSelector),
             (analyzeSEO_throws b, QuerySEO),
             (analyzeTechnical_throws b, QueryTechnical),
             (analyzeContent_throws b, QueryContent),
             (analyzePerformance_throws b, QueryPerformance)] of
       (Some e, acts) \<Rightarrow> (Inl e, acts)
     | (None, acts) \<Rightarrow>
         if wantsScreenshots options
         then (case captureScreenshots b of
                 (Inl e, shot_acts) \<Rightarrow> (Inl e, acts @ shot_acts)
               | (Inr shots, shot_acts) \<Rightarrow> (Inr (assemble b url_in shots), acts @ shot_acts))
         else (Inr (assemble b url_in
                      \<lparr> desktop = None, mobile = None, shot_timestamp = date_default b \<rparr>),
               acts))"

text \<open>
  \<open>finally { await context.close() }\<close>: the context is closed whatever the block did, and
  an error thrown by the closing replaces the block's outcome.
\<close>

definition finally_close ::
  "Browser \<Rightarrow> (exn + AuditResult) \<times> browser_action list
     \<Rightarrow> (exn + AuditResult) \<times> browser_action list" where
  "finally_close b r =
    (case closeContext b of
       Some e \<Rightarrow> (Inl e, snd r @ [CloseContext])
     | None \<Rightarrow> (fst r, snd r @ [CloseContext]))"

definition runPlaywrightAudit ::
  "Browser \<Rightarrow> utf16 \<Rightarrow> AuditOptions option \<Rightarrow> (exn + AuditResult) \<times> browser_action list" where
  "runPlaywrightAudit b url_in options =
    (case run_steps [(getBrowser b, GetBrowser), (newContext b, NewContext), (newPage b, NewPage)] of
       (Some e, acts) \<Rightarrow> (Inl e, acts)
     | (None, acts) \<Rightarrow>
         (case finally_close b (audit_page b url_in options) of
            (res, block_acts) \<Rightarrow> (res, acts @ block_acts)))"

section \<open>The audit service (audit-service.ts)\<close>

text \<open>
  \<open>new URL(url)\<close> is a parameter: the \<open>protocol\<close> of the parsed URL, \<open>None\<close> when the
  constructor throws.
\<close>

definition isValidURL :: "(utf16 \<Rightarrow> string option) \<Rightarrow> utf16 \<Rightarrow> bool" where
  "isValidURL URL_protocol url_in =
    (case URL_protocol url_in of
       Some protocol \<Rightarrow> protocol \<in> set [''http:'', ''https:'']
     | None \<Rightarrow> False)"

text \<open>What a run can change: the stored records and the browser.\<close>

record World =
  audits :: audit_map
  browser_log :: "browser_action list"

record ServiceEnv =
  URL_protocol :: "utf16 \<Rightarrow> string option"
  browser :: Browser
  generated_id :: string
  save_time :: string

definition runAudit ::
  "ServiceEnv \<Rightarrow> World \<Rightarrow> utf16 \<Rightarrow> AuditOptions option \<Rightarrow> (exn + string) \<times> World" where
  "runAudit env w url_in options =
    (if \<not> isValidURL (URL_protocol env) url_in
     then (Inl (JsError ''Invalid URL format''), w)
     else
       (case runPlaywrightAudit (browser env) url_in options of
          (Inl e, acts) \<Rightarrow> (Inl e, w\<lparr> browser_log := browser_log w @ acts \<rparr>)
        | (Inr auditResult, acts) \<Rightarrow>
            (case saveAudit (generated_id env) (save_time env) (audits w) auditResult of
               (auditId, audits') \<Rightarrow>
                 (Inr auditId, w\<lparr> audits := audits', browser_log := browser_log w @ acts \<rparr>))))"

section \<open>The specification's vocabulary\<close>

text \<open>The sum of the penalties of the issues of one category.\<close>

definition category_penalties :: "category \<Rightarrow> Issue list \<Rightarrow> int" where
  "category_penalties c is =
     sum_list (map (\<lambda>i. penalty_of (issue_impact i)) (filter (\<lambda>i. issue_category i = c) is))"

text \<open>The arithmetic mean of the four category scores.\<close>

definition mean_score :: "Categories \<Rightarrow> rat" where
  "mean_score cs =
     (of_int (score (cat_seo cs)) + of_int (score (cat_technical cs))
       + of_int (score (cat_content cs)) + of_int (score (cat_performance cs))) / 4"

text \<open>What identifies a rule's issue: its identifier, severity and category.\<close>

definition issue_key :: "Issue \<Rightarrow> string \<times> issue_type \<times> category" where
  "issue_key i = (issue_id i, issue_type i, issue_category i)"

text \<open>
  The rule table of the specification over the four bundles: each rule is its predicate
  and the issue it stands for, in the order of evaluation.
\<close>

definition rule_table ::
  "SEOAnalysis \<Rightarrow> TechnicalAnalysis \<Rightarrow> ContentAnalysis
     \<Rightarrow> (bool \<times> string \<times> issue_type \<times> category) list" where
  "rule_table s t c =
    [(\<not> isOptimal (title s), ''title-length'', Warning, Seo),
     (\<not> isOptimal (metaDescription s), ''meta-description'', Error, Seo),
     (length (h1 (headingStructure s)) = 0, ''missing-h1'', Error, Seo),
     (length (h1 (headingStructure s)) > 1, ''multiple-h1'', Warning, Seo),
     (withoutAlt (images c) > 0, ''images-without-alt'', Warning, Content),
     (link_empty (links c) > 0, ''empty-links'', Warning, Content),
     (\<not> hasSSL (security t), ''no-ssl'', Error, Technical),
     (\<not> hasViewport (mobileOptimization t), ''no-viewport'', Error, Technical),
     (loadTime t > 3000, ''slow-loading'', Warning, Performance)]"

text \<open>A description that is present with a length in [120,160].\<close>

definition description_in_range :: "utf16 option \<Rightarrow> bool" where
  "description_in_range md = (case md of None \<Rightarrow> False | Some d \<Rightarrow> 120 \<le> length d \<and> length d \<le> 160)"

definition title_in_range :: "utf16 \<Rightarrow> bool" where
  "title_in_range t = (30 \<le> length t \<and> length t \<le> 60)"

text \<open>
  The same table over the page itself, for the bundle that the extractor makes of it: the
  title rule is a length outside [30,60], the description rule a description that is
  missing or of a length outside [120,160].
\<close>

definition page_rule_table ::
  "PageDom \<Rightarrow> TechnicalAnalysis \<Rightarrow> ContentAnalysis
     \<Rightarrow> (bool \<times> string \<times> issue_type \<times> category) list" where
  "page_rule_table page t c =
    [(\<not> title_in_range (page_title page), ''title-length'', Warning, Seo),
     (\<not> description_in_range (meta_description page), ''meta-description'', Error, Seo),
     (length (headings_of H1 (heading_elements page)) = 0, ''missing-h1'', Error, Seo),
     (length (headings_of H1 (heading_elements page)) > 1, ''multiple-h1'', Warning, Seo),
     (withoutAlt (images c) > 0, ''images-without-alt'', Warning, Content),
     (link_empty (links c) > 0, ''empty-links'', Warning, Content),
     (\<not> hasSSL (security t), ''no-ssl'', Error, Technical),
     (\<not> hasViewport (mobileOptimization t), ''no-viewport'', Error, Technical),
     (loadTime t > 3000, ''slow-loading'', Warning, Performance)]"

definition fired :: "(bool \<times> 'a) list \<Rightarrow> 'a list" where
  "fired rules = map snd (filter fst rules)"

text \<open>The number of placeholder links of a bundle: none when the list is absent.\<close>

definition placeholder_count :: "ContentAnalysis \<Rightarrow> nat" where
  "placeholder_count c = (case placeholderLinks c of None \<Rightarrow> 0 | Some pl \<Rightarrow> length pl)"

text \<open>The meta description content is missing: null or the empty string.\<close>

definition description_missing :: "AuditResult \<Rightarrow> bool" where
  "description_missing a =
    (case tag_content (metaDescription (seo a)) of None \<Rightarrow> True | Some d \<Rightarrow> d = [])"

text \<open>The content-quality deductions of the specification, before clamping.\<close>

definition content_quality_raw :: "AuditResult \<Rightarrow> int" where
  "content_quality_raw a =
     100 - (if description_missing a then 20 else 0)
         - 5 * int (placeholder_count (content a))
         - 3 * int (withoutAlt (images (content a)))
         - (if suspiciousTestimonials (content a) then 15 else 0)"

definition clamp_0_100 :: "int \<Rightarrow> int" where
  "clamp_0_100 x = max 0 (min 100 x)"

text \<open>
  The ways the generative collaborator fails: no key configured, the request rejected
  (transport error or time-out), a non-success response, a body without the expected
  text, no JSON found in the text, or JSON that does not parse.
\<close>

definition collaborator_fails :: "LLMService \<Rightarrow> Collaborator \<Rightarrow> AuditResult \<Rightarrow> utf16 \<Rightarrow> bool" where
  "collaborator_fails svc env a pageContent =
    (apiKey svc = [] \<or>
     (case fetch env (baseUrl svc) (apiKey svc) a pageContent of
        Rejected \<Rightarrow> True
      | Responded r \<Rightarrow>
          (if resp_ok r
           then (case resp_text r of
                   None \<Rightarrow> True
                 | Some text \<Rightarrow>
                     (case match_json env text of
                        None \<Rightarrow> True
                      | Some j \<Rightarrow> JSON_parse env j = None))
           else True)))"

text \<open>A deep analysis with every section filled in by the heuristic generator.\<close>

definition complete_analysis :: "LLMAnalysisResult \<Rightarrow> bool" where
  "complete_analysis d =
    (0 \<le> cqa_overallScore (contentQualityAssessment d)
     \<and> cqa_overallScore (contentQualityAssessment d) \<le> 100
     \<and> length (cqa_recommendations (contentQualityAssessment d)) = 5
     \<and> searchVisibilityIncrease (businessImpactProjections d) \<noteq> []
     \<and> userExperienceImprovement (businessImpactProjections d) \<noteq> []
     \<and> conversionRateImpact (businessImpactProjections d) \<noteq> []
     \<and> length (actionItems d) \<ge> 2)"

text \<open>
  The page of the scenario: a title of 45 code units, a description of 140, exactly one H1,
  all five Open Graph tags, SSL and a load time of 800 ms.
\<close>

definition scenario_page :: "PageDom \<Rightarrow> TechnicalAnalysis \<Rightarrow> bool" where
  "scenario_page page t =
    (length (page_title page) = 45
     \<and> (case meta_description page of None \<Rightarrow> False | Some d \<Rightarrow> length d = 140)
     \<and> length (headings_of H1 (heading_elements page)) = 1
     \<and> truthy (ogp_title page) \<and> truthy (ogp_description page) \<and> truthy (ogp_image page)
     \<and> truthy (ogp_url page) \<and> truthy (ogp_type page)
     \<and> hasSSL (security t)
     \<and> loadTime t = 800)"

text \<open>The caller's string is malformed as a URL, or its scheme is neither http nor https.\<close>

definition invalid_input :: "(utf16 \<Rightarrow> string option) \<Rightarrow> utf16 \<Rightarrow> bool" where
  "invalid_input parse u =
    (case parse u of None \<Rightarrow> True | Some p \<Rightarrow> p \<noteq> ''http:'' \<and> p \<noteq> ''https:'')"

text \<open>Screenshot capture is switched off: an options object with \<open>includeScreenshots: false\<close>.\<close>

definition screenshots_disabled :: "AuditOptions option \<Rightarrow> bool" where
  "screenshots_disabled options =
    (case options of None \<Rightarrow> False | Some opts \<Rightarrow> includeScreenshots opts = Some False)"

text \<open>Every step of a run before the decision on screenshots succeeds.\<close>

definition reaches_screenshots :: "Browser \<Rightarrow> utf16 \<Rightarrow> AuditOptions option \<Rightarrow> bool" where
  "reaches_screenshots b u options =
    (getBrowser b = None \<and> newContext b = None \<and> newPage b = None
     \<and> goto b u (navigation_timeout options) = None \<and> waitForSelector b = None
     \<and> analyzeSEO_throws b = None \<and> analyzeTechnical_throws b = None
     \<and> analyzeContent_throws b = None \<and> analyzePerformance_throws b = None)"

text \<open>The two halves of that: the steps before the \<open>try\<close> block, and those inside it.\<close>

definition opening_ok :: "Browser \<Rightarrow> bool" where
  "opening_ok b = (getBrowser b = None \<and> newContext b = None \<and> newPage b = None)"

definition block_ok :: "Browser \<Rightarrow> utf16 \<Rightarrow> AuditOptions option \<Rightarrow> bool" where
  "block_ok b u options =
    (goto b u (navigation_timeout options) = None \<and> waitForSelector b = None
     \<and> analyzeSEO_throws b = None \<and> analyzeTechnical_throws b = None
     \<and> analyzeContent_throws b = None \<and> analyzePerformance_throws b = None)"

text \<open>The browser delivers both screenshots.\<close>

definition capture_succeeds :: "Browser \<Rightarrow> bool" where
  "capture_succeeds b = (\<not> isl (desktop_png b) \<and> setViewportSize b = None
     \<and> \<not> isl (mobile_png b))"

text \<open>
  The run returns a record: it reaches the decision on screenshots, the capture succeeds
  when there is one, and the context closes.
\<close>

definition run_completes :: "Browser \<Rightarrow> utf16 \<Rightarrow> AuditOptions option \<Rightarrow> bool" where
  "run_completes b u options =
    (reaches_screenshots b u options \<and> closeContext b = None
     \<and> (if screenshots_disabled options then True else capture_succeeds b))"

text \<open>The image data of a screenshot that was delivered.\<close>

fun png_data :: "exn + string \<Rightarrow> string" where
  "png_data (Inr d) = d"
| "png_data (Inl e) = []"

text \<open>
  Captured screenshots: the desktop and the mobile image, as data URLs, under the time of
  the capture. No screenshots: neither image.
\<close>

definition both_screenshots :: "Browser \<Rightarrow> Screenshots" where
  "both_screenshots b =
    \<lparr> desktop = Some (''data:image/png;base64,'' @ png_data (desktop_png b)),
      mobile = Some (''data:image/png;base64,'' @ png_data (mobile_png b)),
      shot_timestamp = date_capture b \<rparr>"

definition no_screenshots :: "Browser \<Rightarrow> Screenshots" where
  "no_screenshots b = \<lparr> desktop = None, mobile = None, shot_timestamp = date_default b \<rparr>"

text \<open>The screenshots of the record a run returns, if it returns one.\<close>

fun returned_screenshots :: "exn + AuditResult \<Rightarrow> Screenshots option" where
  "returned_screenshots (Inr r) = Some (screenshots r)"
| "returned_screenshots (Inl e) = None"

section \<open>Concrete inputs\<close>

text \<open>ASCII text as UTF-16 code units.\<close>

definition js :: "string \<Rightarrow> utf16" where
  "js s = map (\<lambda>c. of_nat (of_char c)) s"

definition example_page :: PageDom where
  "example_page =
    \<lparr> page_title = replicate 45 0x61,
      meta_description = Some (replicate 140 0x62),
      meta_keywords = None,
      meta_viewport = Some (js ''width=device-width, initial-scale=1''),
      meta_charset = Some (js ''utf-8''),
      link_canonical = Some (js ''https://example.com/''),
      meta_robots = None,
      alternate_hreflang = [],
      ogp_title = Some (js ''Example''),
      ogp_description = Some (js ''An example page''),
      ogp_image = Some (js ''https://example.com/og.png''),
      ogp_url = Some (js ''https://example.com/''),
      ogp_type = Some (js ''website''),
      heading_elements = [(H1, js ''Example''), (H2, js ''Details'')] \<rparr>"

definition example_technical :: TechnicalAnalysis where
  "example_technical =
    \<lparr> loadTime = 800,
      firstContentfulPaint = 0,
      largestContentfulPaint = 0,
      cumulativeLayoutShift = 0,
      timeToInteractive = 0,
      networkRequests = \<lparr> nr_total = 12, nr_failed = 0, nr_totalSize = 0 \<rparr>,
      mobileOptimization = \<lparr> hasViewport = True, isResponsive = True, touchTargetSize = True \<rparr>,
      accessibility = \<lparr> acc_score = 85, acc_issues = [] \<rparr>,
      security = \<lparr> hasSSL = True, mixedContent = False, vulnerabilities = [] \<rparr> \<rparr>"

definition example_content :: ContentAnalysis where
  "example_content =
    \<lparr> wordCount = 500,
      readabilityScore = 75,
      images = \<lparr> img_total = 3, withoutAlt = 0, withEmptyAlt = 0, lazyLoaded = 1, oversized = 0 \<rparr>,
      links = \<lparr> link_total = 4, link_internal = 3, link_external = 1, link_broken = 0,
                link_nofollow = 0, link_empty = 0 \<rparr>,
      structuredData = \<lparr> hasStructuredData = False, sd_types = [], sd_errors = [] \<rparr>,
      placeholderLinks = None,
      hasSuspiciousTestimonials = None \<rparr>"

definition example_performance :: PerformanceAnalysis where
  "example_performance =
    \<lparr> perf_overallScore = 85,
      metrics = \<lparr> m_firstContentfulPaint = 0, m_largestContentfulPaint = 0,
                  m_firstInputDelay = 0, m_cumulativeLayoutShift = 0, m_speedIndex = 800,
                  m_timeToInteractive = 0 \<rparr>,
      opportunities = [],
      resources = \<lparr> javascript = \<lparr> res_total = 2, res_unused = 0, res_blocking = 0 \<rparr>,
                    css = \<lparr> res_total = 1, res_unused = 0, res_blocking = 0 \<rparr>,
                    res_images = \<lparr> ir_total = 3, ir_unoptimized = 0, ir_totalSize = 0 \<rparr> \<rparr> \<rparr>"

definition example_browser :: Browser where
  "example_browser =
    \<lparr> getBrowser = None,
      newContext = None,
      newPage = None,
      goto = (\<lambda>u t. None),
      waitForSelector = None,
      analyzeSEO_throws = None,
      analyzeTechnical_throws = None,
      analyzeContent_throws = None,
      analyzePerformance_throws = None,
      page_dom = example_page,
      technical_bundle = example_technical,
      content_bundle = example_content,
      performance_bundle = example_performance,
      desktop_png = Inr ''iVBORw0KGgo='',
      setViewportSize = None,
      mobile_png = Inr ''iVBORw0KGgp='',
      closeContext = None,
      date_default = ''2024-05-01T10:00:01.000Z'',
      date_capture = ''2024-05-01T10:00:02.000Z'',
      date_result = ''2024-05-01T10:00:03.000Z'',
      elapsed = 3000 \<rparr>"

definition example_url :: utf16 where
  "example_url = js ''https://example.com/''"

definition example_shots :: Screenshots where
  "example_shots = \<lparr> desktop = None, mobile = None, shot_timestamp = ''2024-05-01T10:00:01.000Z'' \<rparr>"

text \<open>The record of an audit of the example page, and of the same page without a description.\<close>

definition example_audit :: AuditResult where
  "example_audit = assemble example_browser example_url example_shots"

definition example_audit_no_description :: AuditResult where
  "example_audit_no_description =
     assemble (example_browser\<lparr> page_dom := example_page\<lparr> meta_description := None \<rparr> \<rparr>)
       example_url example_shots"

text \<open>
  The example page without its viewport meta tag: the lookup of the tag's content and the
  test for the element both come back empty.
\<close>

definition example_page_no_viewport :: PageDom where
  "example_page_no_viewport = example_page\<lparr> meta_viewport := None \<rparr>"

definition example_technical_no_viewport :: TechnicalAnalysis where
  "example_technical_no_viewport =
     example_technical\<lparr> mobileOptimization :=
       \<lparr> hasViewport = False, isResponsive = False, touchTargetSize = True \<rparr> \<rparr>"

text \<open>A record that was stored before and is saved again.\<close>

definition example_stored_audit :: AuditResult where
  "example_stored_audit =
     example_audit\<lparr> ar_id := Some ''audit_1714557600000_k3x9q2m1z'',
                     createdAt := Some ''2024-05-01T10:00:04.000Z'',
                     status := Some Failed \<rparr>"

definition example_env :: ServiceEnv where
  "example_env =
    \<lparr> URL_protocol = (\<lambda>u. if u = js ''https://example.com/'' then Some ''https:''
                          else if u = js ''ftp://example.com/'' then Some ''ftp:''
                          else None),
      browser = example_browser,
      generated_id = ''audit_1714557700000_a1b2c3d4e'',
      save_time = ''2024-05-01T10:01:40.000Z'' \<rparr>"

text \<open>An options object without \<open>includeScreenshots\<close>, and one that sets it to false.\<close>

definition opts_undefined :: AuditOptions where
  "opts_undefined =
    \<lparr> includeScreenshots = None, mobileTest = None, deepScan = None, timeout = None \<rparr>"

definition opts_false :: AuditOptions where
  "opts_false =
    \<lparr> includeScreenshots = Some False, mobileTest = None, deepScan = None, timeout = None \<rparr>"

definition example_world :: World where
  "example_world = \<lparr> audits = Map.empty, browser_log = [] \<rparr>"

definition example_service :: LLMService where
  "example_service = \<lparr> apiKey = ''sk-test'', baseUrl = ''https://api.anthropic.com/v1/messages'' \<rparr>"

definition example_collaborator :: Collaborator where
  "example_collaborator =
    \<lparr> fetch = (\<lambda>u k a p. Rejected),
      match_json = (\<lambda>t. None),
      JSON_parse = (\<lambda>t. None) \<rparr>"

section \<open>Scoring engine: properties\<close>

lemma get_set_category:
  "get_category (set_category cs k v) c = (if c = k then v else get_category cs c)"
  by (cases k; cases c) simp_all

lemma penalty_of_nonneg: "0 \<le> penalty_of i"
  by (simp add: penalty_of_def)

lemma score_score_issue:
  "score (get_category (score_issue cs i) c) =
     (if issue_category i = c
      then max 0 (score (get_category cs c) - penalty_of (issue_impact i))
      else score (get_category cs c))"
  by (simp add: score_issue_def Let_def get_set_category)

lemma category_penalties_nonneg: "0 \<le> category_penalties c is"
  unfolding category_penalties_def by (induction "is") (simp_all add: penalty_of_nonneg)

text \<open>
  The running score of a category after any number of issues, from any non-negative start:
  clamping after each subtraction is clamping once at the end, the penalties being
  non-negative.
\<close>

lemma score_foldl:
  "0 \<le> score (get_category cs c) \<Longrightarrow>
   score (get_category (foldl score_issue cs is) c) =
     max 0 (score (get_category cs c) - category_penalties c is)"
proof (induction "is" arbitrary: cs)
  case Nil
  then show ?case by (simp add: category_penalties_def)
next
  case (Cons i "is")
  have nn: "0 \<le> score (get_category (score_issue cs i) c)"
    using Cons.prems by (simp add: score_score_issue)
  have p: "0 \<le> penalty_of (issue_impact i)" by (rule penalty_of_nonneg)
  have q: "0 \<le> category_penalties c is" by (rule category_penalties_nonneg)
  show ?case
    using Cons.IH [OF nn] p q
    by (auto simp: score_score_issue category_penalties_def)
qed

lemma category_score_closed_form:
  "score (get_category (calculateCategoryScores is) c) = max 0 (100 - category_penalties c is)"
proof -
  have "0 \<le> score (get_category initial_categories c)"
    by (cases c) (simp_all add: initial_categories_def)
  from score_foldl [OF this, of "is"] show ?thesis
    unfolding calculateCategoryScores_def by (cases c) (simp_all add: initial_categories_def)
qed

lemma category_score_range:
  "0 \<le> score (get_category (calculateCategoryScores is) c) \<and>
   score (get_category (calculateCategoryScores is) c) \<le> 100"
  using category_penalties_nonneg [of c "is"] by (simp add: category_score_closed_form)

lemma cat_scores:
  "score (cat_seo (calculateCategoryScores is)) = max 0 (100 - category_penalties Seo is)"
  "score (cat_technical (calculateCategoryScores is)) = max 0 (100 - category_penalties Technical is)"
  "score (cat_content (calculateCategoryScores is)) = max 0 (100 - category_penalties Content is)"
  "score (cat_performance (calculateCategoryScores is)) = max 0 (100 - category_penalties Performance is)"
  using category_score_closed_form [of "is" Seo] category_score_closed_form [of "is" Technical]
    category_score_closed_form [of "is" Content] category_score_closed_form [of "is" Performance]
  by simp_all

lemma Math_round_quarter: "Math_round (of_int t / 4) = (t + 2) div 4"
proof -
  have "(of_int t :: rat) / 4 + 1 / 2 = of_int (t + 2) / of_int 4" by simp
  then show ?thesis unfolding Math_round_def by (simp only: floor_divide_of_int_eq)
qed

lemma overall_eq:
  "calculateOverallScore cs =
     (score (cat_seo cs) + score (cat_technical cs) + score (cat_content cs)
        + score (cat_performance cs) + 2) div 4"
  by (simp add: calculateOverallScore_def Object_values_def Object_keys_def Math_round_quarter)

lemma overall_is_rounded_mean:
  "calculateOverallScore cs = \<lfloor>mean_score cs + 1 / 2\<rfloor>"
  by (simp add: calculateOverallScore_def Object_values_def Object_keys_def Math_round_def
      mean_score_def)

lemma overall_range:
  "0 \<le> calculateOverallScore (calculateCategoryScores is) \<and>
   calculateOverallScore (calculateCategoryScores is) \<le> 100"
  using category_score_range [of "is" Seo] category_score_range [of "is" Technical]
    category_score_range [of "is" Content] category_score_range [of "is" Performance]
  unfolding overall_eq get_category.simps by linarith

text \<open>
  Claim C1. For every issue list: each of the four categories starts at 100; the penalty
  of an issue is 20, 10 or 5 for high, medium or low impact; each issue lowers the running
  score of its own category by its penalty, clamped at 0; the final score of a category is
  \<open>max 0 (100 - sum of its penalties)\<close>; the overall score is the mean of the four final
  scores rounded half-up, that is the integer \<open>n\<close> with \<open>n \<le> mean + 1/2 < n + 1\<close>; and it
  lies in [0,100].
\<close>

theorem scoring_engine:
  "score (get_category initial_categories c) = 100
   \<and> penalty_of High = 20 \<and> penalty_of Medium = 10 \<and> penalty_of Low = 5
   \<and> score (get_category (calculateCategoryScores (is @ [i])) (issue_category i)) =
       max 0 (score (get_category (calculateCategoryScores is) (issue_category i))
               - penalty_of (issue_impact i))
   \<and> score (get_category (calculateCategoryScores is) c) = max 0 (100 - category_penalties c is)
   \<and> of_int (calculateOverallScore (calculateCategoryScores is))
         \<le> mean_score (calculateCategoryScores is) + 1 / 2
   \<and> mean_score (calculateCategoryScores is) + 1 / 2
         < of_int (calculateOverallScore (calculateCategoryScores is)) + 1
   \<and> 0 \<le> calculateOverallScore (calculateCategoryScores is)
   \<and> calculateOverallScore (calculateCategoryScores is) \<le> 100"
proof -
  have a: "score (get_category initial_categories c) = 100"
    by (cases c) (simp_all add: initial_categories_def)
  have b: "penalty_of High = 20 \<and> penalty_of Medium = 10 \<and> penalty_of Low = 5"
    by (simp add: penalty_of_def)
  have c: "score (get_category (calculateCategoryScores (is @ [i])) (issue_category i)) =
       max 0 (score (get_category (calculateCategoryScores is) (issue_category i))
               - penalty_of (issue_impact i))"
    by (simp add: calculateCategoryScores_def score_score_issue)
  have d: "of_int (calculateOverallScore (calculateCategoryScores is))
         \<le> mean_score (calculateCategoryScores is) + 1 / 2"
    unfolding overall_is_rounded_mean by (rule of_int_floor_le)
  have e: "mean_score (calculateCategoryScores is) + 1 / 2
         < of_int (calculateOverallScore (calculateCategoryScores is)) + 1"
    unfolding overall_is_rounded_mean by linarith
  from a b c d e category_score_closed_form [of "is" c] overall_range [of "is"]
  show ?thesis by blast
qed

section \<open>Deriver: properties\<close>

lemma issue_keys:
  "issue_key (title_length_issue s) = (''title-length'', Warning, Seo)"
  "issue_key (meta_description_issue s) = (''meta-description'', Error, Seo)"
  "issue_key missing_h1_issue = (''missing-h1'', Error, Seo)"
  "issue_key (multiple_h1_issue s) = (''multiple-h1'', Warning, Seo)"
  "issue_key (images_without_alt_issue c) = (''images-without-alt'', Warning, Content)"
  "issue_key (empty_links_issue c) = (''empty-links'', Warning, Content)"
  "issue_key no_ssl_issue = (''no-ssl'', Error, Technical)"
  "issue_key no_viewport_issue = (''no-viewport'', Error, Technical)"
  "issue_key (slow_loading_issue t) = (''slow-loading'', Warning, Performance)"
  by (simp_all add: issue_key_def title_length_issue_def meta_description_issue_def
      missing_h1_issue_def multiple_h1_issue_def images_without_alt_issue_def
      empty_links_issue_def no_ssl_issue_def no_viewport_issue_def slow_loading_issue_def)

lemma fired_Nil: "fired [] = []"
  by (simp add: fired_def)

lemma fired_Cons: "fired ((b, x) # rs) = (if b then x # fired rs else fired rs)"
  by (simp add: fired_def)

lemma map_push_if: "map f (push_if b x xs) = push_if b (f x) (map f xs)"
  by (simp add: push_if_def)

lemma push_if_fired: "push_if b x (fired rs) = fired (rs @ [(b, x)])"
  by (simp add: push_if_def fired_def)

lemma deriver_rule_table:
  "map issue_key (df_issues (analyzeIssuesAndRecommendations s t c p)) = fired (rule_table s t c)"
proof -
  have "map issue_key (df_issues (analyzeIssuesAndRecommendations s t c p)) =
    push_if (loadTime t > 3000) (''slow-loading'', Warning, Performance)
     (push_if (\<not> hasViewport (mobileOptimization t)) (''no-viewport'', Error, Technical)
     (push_if (\<not> hasSSL (security t)) (''no-ssl'', Error, Technical)
     (push_if (link_empty (links c) > 0) (''empty-links'', Warning, Content)
     (push_if (withoutAlt (images c) > 0) (''images-without-alt'', Warning, Content)
     (push_if (length (h1 (headingStructure s)) > 1) (''multiple-h1'', Warning, Seo)
     (push_if (length (h1 (headingStructure s)) = 0) (''missing-h1'', Error, Seo)
     (push_if (\<not> isOptimal (metaDescription s)) (''meta-description'', Error, Seo)
     (push_if (\<not> isOptimal (title s)) (''title-length'', Warning, Seo) (fired [])))))))))"
    by (simp only: analyzeIssuesAndRecommendations_def Let_def DerivedFindings.simps
        map_push_if issue_keys list.map fired_Nil)
  also have "\<dots> = fired (rule_table s t c)"
    by (simp only: push_if_fired rule_table_def append.simps)
  finally show ?thesis .
qed

lemma analyzeSEO_title_flag:
  "isOptimal (title (analyzeSEO page)) = title_in_range (page_title page)"
  by (simp add: analyzeSEO_def title_in_range_def Let_def)

lemma analyzeSEO_description_flag:
  "isOptimal (metaDescription (analyzeSEO page)) = description_in_range (meta_description page)"
  by (auto simp add: analyzeSEO_def description_in_range_def Let_def truthy_def
      split: option.splits)

lemma analyzeSEO_h1:
  "h1 (headingStructure (analyzeSEO page)) = headings_of H1 (heading_elements page)"
  by (simp add: analyzeSEO_def Let_def)

lemma rule_table_page: "rule_table (analyzeSEO page) t c = page_rule_table page t c"
  by (simp only: rule_table_def page_rule_table_def analyzeSEO_title_flag
      analyzeSEO_description_flag analyzeSEO_h1)

text \<open>
  Claim C2. For every quadruple of signal bundles the deriver produces exactly the issues
  of the rules whose predicates hold, in the fixed order of the rule table: title,
  meta description, missing H1, multiple H1, images without alt, empty links, no SSL,
  no viewport, slow loading, each with its severity and category. The description rule
  tests the optimality flag, and for the bundle extracted from a page that flag is false
  exactly when the description is missing or its length is outside [120,160]. The deriver
  is a function of the four bundles, so equal inputs give the same ordered list.
\<close>

theorem deriver_fires_rule_table_in_order:
  "map issue_key (df_issues (analyzeIssuesAndRecommendations s t c p)) = fired (rule_table s t c)
   \<and> map issue_key (df_issues (analyzeIssuesAndRecommendations (analyzeSEO page) t c p))
       = fired (page_rule_table page t c)"
  by (simp only: deriver_rule_table rule_table_page)

section \<open>Extractor: the optimality flags\<close>

text \<open>
  Claim C5. For every extracted page the title is flagged optimal exactly when its length
  is in [30,60] (30 and 60 are optimal, 29 and 61 are not), and the meta description is
  flagged optimal exactly when it is present with a length in [120,160] (120 and 160 are
  optimal, 119 and 161 are not); an absent description is never optimal.
\<close>

theorem optimality_flags:
  "isOptimal (title (analyzeSEO page))
      = (30 \<le> length (page_title page) \<and> length (page_title page) \<le> 60)
   \<and> isOptimal (metaDescription (analyzeSEO page))
      = (case meta_description page of None \<Rightarrow> False
         | Some d \<Rightarrow> 120 \<le> length d \<and> length d \<le> 160)
   \<and> (length (page_title page) = 30 \<or> length (page_title page) = 60
        \<longrightarrow> isOptimal (title (analyzeSEO page)))
   \<and> (length (page_title page) = 29 \<or> length (page_title page) = 61
        \<longrightarrow> \<not> isOptimal (title (analyzeSEO page)))
   \<and> (meta_description page = Some d \<and> (length d = 120 \<or> length d = 160)
        \<longrightarrow> isOptimal (metaDescription (analyzeSEO page)))
   \<and> (meta_description page = Some d \<and> (length d = 119 \<or> length d = 161)
        \<longrightarrow> \<not> isOptimal (metaDescription (analyzeSEO page)))
   \<and> (meta_description page = None \<longrightarrow> \<not> isOptimal (metaDescription (analyzeSEO page)))"
  by (auto simp add: analyzeSEO_def Let_def truthy_def split: option.splits)

theorem optimality_flags_witness:
  "isOptimal (title (analyzeSEO (example_page\<lparr> page_title := replicate 30 0x61 \<rparr>)))
   \<and> isOptimal (title (analyzeSEO (example_page\<lparr> page_title := replicate 60 0x61 \<rparr>)))
   \<and> \<not> isOptimal (title (analyzeSEO (example_page\<lparr> page_title := replicate 29 0x61 \<rparr>)))
   \<and> \<not> isOptimal (title (analyzeSEO (example_page\<lparr> page_title := replicate 61 0x61 \<rparr>)))
   \<and> isOptimal (metaDescription (analyzeSEO
         (example_page\<lparr> meta_description := Some (replicate 120 0x62) \<rparr>)))
   \<and> isOptimal (metaDescription (analyzeSEO
         (example_page\<lparr> meta_description := Some (replicate 160 0x62) \<rparr>)))
   \<and> \<not> isOptimal (metaDescription (analyzeSEO
         (example_page\<lparr> meta_description := Some (replicate 119 0x62) \<rparr>)))
   \<and> \<not> isOptimal (metaDescription (analyzeSEO
         (example_page\<lparr> meta_description := Some (replicate 161 0x62) \<rparr>)))
   \<and> \<not> isOptimal (metaDescription (analyzeSEO (example_page\<lparr> meta_description := None \<rparr>)))"
  using
    optimality_flags [of "example_page\<lparr> page_title := replicate 30 0x61 \<rparr>"]
    optimality_flags [of "example_page\<lparr> page_title := replicate 60 0x61 \<rparr>"]
    optimality_flags [of "example_page\<lparr> page_title := replicate 29 0x61 \<rparr>"]
    optimality_flags [of "example_page\<lparr> page_title := replicate 61 0x61 \<rparr>"]
    optimality_flags [of "example_page\<lparr> meta_description := Some (replicate 120 0x62) \<rparr>"
      "replicate 120 0x62"]
    optimality_flags [of "example_page\<lparr> meta_description := Some (replicate 160 0x62) \<rparr>"
      "replicate 160 0x62"]
    optimality_flags [of "example_page\<lparr> meta_description := Some (replicate 119 0x62) \<rparr>"
      "replicate 119 0x62"]
    optimality_flags [of "example_page\<lparr> meta_description := Some (replicate 161 0x62) \<rparr>"
      "replicate 161 0x62"]
    optimality_flags [of "example_page\<lparr> meta_description := None \<rparr>"]
  by simp

section \<open>The clean-page scenario\<close>

lemma push_if_False: "push_if False x xs = xs"
  by (simp add: push_if_def)

lemma push_if_True: "push_if True x xs = xs @ [x]"
  by (simp add: push_if_def)

lemma deriver_issues:
  "df_issues (analyzeIssuesAndRecommendations s t c p) =
    push_if (loadTime t > 3000) (slow_loading_issue t)
     (push_if (\<not> hasViewport (mobileOptimization t)) no_viewport_issue
     (push_if (\<not> hasSSL (security t)) no_ssl_issue
     (push_if (link_empty (links c) > 0) (empty_links_issue c)
     (push_if (withoutAlt (images c) > 0) (images_without_alt_issue c)
     (push_if (length (h1 (headingStructure s)) > 1) (multiple_h1_issue s)
     (push_if (length (h1 (headingStructure s)) = 0) missing_h1_issue
     (push_if (\<not> isOptimal (metaDescription s)) (meta_description_issue s)
     (push_if (\<not> isOptimal (title s)) (title_length_issue s) []))))))))"
  by (simp only: analyzeIssuesAndRecommendations_def Let_def DerivedFindings.simps)

lemma scenario_flags:
  assumes "scenario_page page t"
  shows "isOptimal (title (analyzeSEO page))"
    and "isOptimal (metaDescription (analyzeSEO page))"
    and "length (h1 (headingStructure (analyzeSEO page))) = 1"
    and "hasSSL (security t)" and "loadTime t = 800"
  using assms
  by (auto simp add: scenario_page_def analyzeSEO_title_flag analyzeSEO_description_flag
      analyzeSEO_h1 title_in_range_def description_in_range_def split: option.splits)

lemma no_issues_overall: "calculateOverallScore (calculateCategoryScores []) = 100"
  by (simp add: overall_eq cat_scores category_penalties_def)

lemma example_scenario: "scenario_page example_page example_technical"
  by (simp add: scenario_page_def example_page_def example_technical_def headings_of_def
      truthy_def js_def)

lemma example_scenario_no_viewport:
  "scenario_page example_page_no_viewport example_technical_no_viewport"
  by (simp add: scenario_page_def example_page_no_viewport_def example_page_def
      example_technical_no_viewport_def example_technical_def headings_of_def truthy_def js_def)

text \<open>
  Claim C7, as the specification states it, names the title, the description, the H1, the
  Open Graph tags, SSL and the load time. The deriver also has rules for the viewport tag,
  for images without alt text and for links without text: the example page, served without
  a viewport tag, meets every condition of the scenario and still yields one issue and an
  overall score of 95.
\<close>

theorem scenario_without_viewport_counterexample:
  "scenario_page example_page_no_viewport example_technical_no_viewport
   \<and> df_issues (analyzeIssuesAndRecommendations (analyzeSEO example_page_no_viewport)
        example_technical_no_viewport example_content example_performance) = [no_viewport_issue]
   \<and> calculateOverallScore (calculateCategoryScores
        (df_issues (analyzeIssuesAndRecommendations (analyzeSEO example_page_no_viewport)
           example_technical_no_viewport example_content example_performance))) = 95"
proof -
  have f: "\<not> hasViewport (mobileOptimization example_technical_no_viewport)"
    by (simp add: example_technical_no_viewport_def)
  have c: "withoutAlt (images example_content) = 0 \<and> link_empty (links example_content) = 0"
    by (simp add: example_content_def)
  have i: "df_issues (analyzeIssuesAndRecommendations (analyzeSEO example_page_no_viewport)
        example_technical_no_viewport example_content example_performance) = [no_viewport_issue]"
    using f c scenario_flags [OF example_scenario_no_viewport]
    by (simp add: deriver_issues push_if_False push_if_True)
  have s: "calculateOverallScore (calculateCategoryScores [no_viewport_issue]) = 95"
    by (simp add: overall_eq cat_scores category_penalties_def no_viewport_issue_def
        penalty_of_def)
  from example_scenario_no_viewport i s show ?thesis by simp
qed

text \<open>
  Claim C7, amended. A page with a 45-character title, a 140-character meta description,
  exactly one H1, the full Open Graph tag set, SSL and a load time of 800 ms, that also has
  a viewport meta tag, no image without alt text and no link without text, yields zero
  issues and an overall score of 100.
\<close>

theorem clean_page_scores_100:
  "scenario_page page t \<and> hasViewport (mobileOptimization t)
     \<and> withoutAlt (images c) = 0 \<and> link_empty (links c) = 0
   \<longrightarrow> df_issues (analyzeIssuesAndRecommendations (analyzeSEO page) t c p) = []
       \<and> calculateOverallScore (calculateCategoryScores
            (df_issues (analyzeIssuesAndRecommendations (analyzeSEO page) t c p))) = 100"
proof (intro impI)
  assume h: "scenario_page page t \<and> hasViewport (mobileOptimization t)
     \<and> withoutAlt (images c) = 0 \<and> link_empty (links c) = 0"
  then have sp: "scenario_page page t" by blast
  have "df_issues (analyzeIssuesAndRecommendations (analyzeSEO page) t c p) = []"
    using h scenario_flags [OF sp] by (simp add: deriver_issues push_if_False)
  then show "df_issues (analyzeIssuesAndRecommendations (analyzeSEO page) t c p) = []
       \<and> calculateOverallScore (calculateCategoryScores
            (df_issues (analyzeIssuesAndRecommendations (analyzeSEO page) t c p))) = 100"
    by (simp add: no_issues_overall)
qed

theorem clean_page_scores_100_witness:
  "scenario_page example_page example_technical
   \<and> hasViewport (mobileOptimization example_technical)
   \<and> withoutAlt (images example_content) = 0 \<and> link_empty (links example_content) = 0
   \<and> df_issues (analyzeIssuesAndRecommendations (analyzeSEO example_page) example_technical
        example_content example_performance) = []
   \<and> calculateOverallScore (calculateCategoryScores
        (df_issues (analyzeIssuesAndRecommendations (analyzeSEO example_page) example_technical
           example_content example_performance))) = 100"
proof -
  have 1: "hasViewport (mobileOptimization example_technical)"
    by (simp add: example_technical_def)
  have 2: "withoutAlt (images example_content) = 0 \<and> link_empty (links example_content) = 0"
    by (simp add: example_content_def)
  from example_scenario 1 2
    clean_page_scores_100 [of example_page example_technical example_content example_performance]
  show ?thesis by blast
qed

section \<open>Heuristic generator: properties\<close>

lemma truthy_missing:
  "truthy (tag_content (metaDescription (seo a))) = (\<not> description_missing a)"
  by (simp add: truthy_def description_missing_def split: option.splits)

lemma placeholder_deduction:
  "(if hasPlaceholderLinks c then x - int (placeholderLinks_length c) * 5 else x)
     = x - 5 * int (placeholder_count c)"
  by (simp add: hasPlaceholderLinks_def placeholderLinks_length_def placeholder_count_def
      split: option.splits)

lemma alt_deduction:
  "(if (n::nat) > 0 then x - int n * 3 else x) = x - 3 * int n"
  by simp

lemma content_quality_closed_form:
  "calculateContentQualityScore a = clamp_0_100 (content_quality_raw a)"
  unfolding calculateContentQualityScore_def Let_def placeholder_deduction alt_deduction
    truthy_missing clamp_0_100_def content_quality_raw_def
  by simp

lemma assemble_fields:
  "seo (assemble b u sh) = analyzeSEO (page_dom b)"
  "technical (assemble b u sh) = technical_bundle b"
  "content (assemble b u sh) = content_bundle b"
  "performance (assemble b u sh) = performance_bundle b"
  "screenshots (assemble b u sh) = sh"
  "url (assemble b u sh) = u"
  "ar_id (assemble b u sh) = None"
  "createdAt (assemble b u sh) = None"
  "status (assemble b u sh) = None"
  by (simp_all add: assemble_def Let_def)

text \<open>
  Claim C3. For every complete AuditResult the content-quality score is 100, minus 20 if
  the meta description content is missing (null or empty), minus 5 per placeholder link,
  minus 3 per image without alt text, minus 15 if suspicious testimonials are flagged,
  clamped to [0,100]; a record whose only negative signal is the missing description
  scores 80.
\<close>

theorem content_quality_score:
  "calculateContentQualityScore a = clamp_0_100 (content_quality_raw a)
   \<and> 0 \<le> calculateContentQualityScore a \<and> calculateContentQualityScore a \<le> 100
   \<and> (description_missing a \<and> placeholder_count (content a) = 0
        \<and> withoutAlt (images (content a)) = 0 \<and> \<not> suspiciousTestimonials (content a)
      \<longrightarrow> calculateContentQualityScore a = 80)"
  by (simp add: content_quality_closed_form clamp_0_100_def content_quality_raw_def)

theorem content_quality_score_witness:
  "description_missing example_audit_no_description
   \<and> placeholder_count (content example_audit_no_description) = 0
   \<and> withoutAlt (images (content example_audit_no_description)) = 0
   \<and> \<not> suspiciousTestimonials (content example_audit_no_description)
   \<and> calculateContentQualityScore example_audit_no_description = 80"
proof -
  have 1: "description_missing example_audit_no_description"
    by (simp add: description_missing_def example_audit_no_description_def assemble_fields
        example_browser_def example_page_def analyzeSEO_def Let_def)
  have 2: "placeholder_count (content example_audit_no_description) = 0"
    by (simp add: placeholder_count_def example_audit_no_description_def assemble_fields
        example_browser_def example_content_def)
  have 3: "withoutAlt (images (content example_audit_no_description)) = 0"
    by (simp add: example_audit_no_description_def assemble_fields
        example_browser_def example_content_def)
  have 4: "\<not> suspiciousTestimonials (content example_audit_no_description)"
    by (simp add: suspiciousTestimonials_def example_audit_no_description_def assemble_fields
        example_browser_def example_content_def)
  from 1 2 3 4 content_quality_score [of example_audit_no_description]
  show ?thesis by blast
qed

lemma action_items_two: "2 \<le> length (extractActionItems a)"
  by (simp add: extractActionItems_def Let_def)

lemma fallback_complete: "complete_analysis (getFallbackAnalysis a)"
  by (simp add: complete_analysis_def getFallbackAnalysis_def content_quality_closed_form
      clamp_0_100_def extractContentRecommendations_def calculateSEOImpact_def
      calculateUXImpact_def calculateConversionImpact_def Let_def action_items_two)

lemma generative_fallback:
  "collaborator_fails svc env a pc \<Longrightarrow>
   analyzeAuditResults_generative svc env a pc = Inr (getFallbackAnalysis a)"
  by (auto simp add: collaborator_fails_def analyzeAuditResults_generative_def
      parseAnalysisResponse_def split: fetch_outcome.splits option.splits if_splits)

text \<open>
  Claim C4. For every AuditResult, \<open>analyzeAuditResults\<close> returns the heuristic analysis
  and no error: as the function runs it returns it for every state of the collaborator,
  and the statements that would call the collaborator return it too whenever the
  collaborator is unavailable, the request is rejected or times out, the response is not a
  success, or no JSON can be parsed from its text. The heuristic analysis is complete:
  a score in [0,100], the five recommendations, the three impact projections and at least
  the two standing action items.
\<close>

theorem generative_failure_falls_back:
  "analyzeAuditResults svc env a pc = Inr (getFallbackAnalysis a)
   \<and> (collaborator_fails svc env a pc
        \<longrightarrow> analyzeAuditResults_generative svc env a pc = Inr (getFallbackAnalysis a))
   \<and> complete_analysis (getFallbackAnalysis a)"
  by (simp add: analyzeAuditResults_def generative_fallback fallback_complete)

theorem generative_failure_falls_back_witness:
  "collaborator_fails example_service example_collaborator example_audit (js ''<html></html>'')
   \<and> analyzeAuditResults example_service example_collaborator example_audit (js ''<html></html>'')
        = Inr (getFallbackAnalysis example_audit)
   \<and> analyzeAuditResults_generative example_service example_collaborator example_audit
        (js ''<html></html>'') = Inr (getFallbackAnalysis example_audit)
   \<and> complete_analysis (getFallbackAnalysis example_audit)"
proof -
  have "collaborator_fails example_service example_collaborator example_audit (js ''<html></html>'')"
    by (simp add: collaborator_fails_def example_service_def example_collaborator_def)
  with generative_failure_falls_back [of example_service example_collaborator example_audit
      "js ''<html></html>''"]
  show ?thesis by blast
qed

section \<open>Storage: properties\<close>

lemma example_stored_status: "status example_stored_audit = Some Failed"
  by (simp add: example_stored_audit_def)

text \<open>
  Claim C6, as the specification states it, has the retrieved record equal to the saved
  one in all fields. \<open>saveAudit\<close> stores the record with \<open>id\<close>, \<open>createdAt\<close> and \<open>status\<close>
  overwritten: the record of a fresh audit comes back with an identifier it did not have,
  and a record that carries a status of its own comes back with another.
\<close>

theorem save_then_get_counterexample:
  "getAudit (snd (saveAudit ''audit_1714557700000_a1b2c3d4e'' ''2024-05-01T10:01:40.000Z''
                    Map.empty example_audit))
            (fst (saveAudit ''audit_1714557700000_a1b2c3d4e'' ''2024-05-01T10:01:40.000Z''
                    Map.empty example_audit))
     \<noteq> Some example_audit
   \<and> getAudit (snd (saveAudit ''audit_1714557700000_a1b2c3d4e'' ''2024-05-01T10:01:40.000Z''
                    Map.empty example_stored_audit))
            (fst (saveAudit ''audit_1714557700000_a1b2c3d4e'' ''2024-05-01T10:01:40.000Z''
                    Map.empty example_stored_audit))
     \<noteq> Some example_stored_audit"
proof (intro conjI notI)
  assume "getAudit (snd (saveAudit ''audit_1714557700000_a1b2c3d4e'' ''2024-05-01T10:01:40.000Z''
                    Map.empty example_audit))
            (fst (saveAudit ''audit_1714557700000_a1b2c3d4e'' ''2024-05-01T10:01:40.000Z''
                    Map.empty example_audit))
     = Some example_audit"
  then have "example_audit\<lparr> ar_id := Some ''audit_1714557700000_a1b2c3d4e'',
       createdAt := Some ''2024-05-01T10:01:40.000Z'', status := Some Completed \<rparr>
     = example_audit"
    by (simp add: saveAudit_def getAudit_def Let_def)
  then have "ar_id (example_audit\<lparr> ar_id := Some ''audit_1714557700000_a1b2c3d4e'',
       createdAt := Some ''2024-05-01T10:01:40.000Z'', status := Some Completed \<rparr>)
     = ar_id example_audit"
    by (rule arg_cong)
  then show False by (simp add: example_audit_def assemble_fields)
next
  assume "getAudit (snd (saveAudit ''audit_1714557700000_a1b2c3d4e'' ''2024-05-01T10:01:40.000Z''
                    Map.empty example_stored_audit))
            (fst (saveAudit ''audit_1714557700000_a1b2c3d4e'' ''2024-05-01T10:01:40.000Z''
                    Map.empty example_stored_audit))
     = Some example_stored_audit"
  then have "example_stored_audit\<lparr> ar_id := Some ''audit_1714557700000_a1b2c3d4e'',
       createdAt := Some ''2024-05-01T10:01:40.000Z'', status := Some Completed \<rparr>
     = example_stored_audit"
    by (simp add: saveAudit_def getAudit_def Let_def)
  then have "status (example_stored_audit\<lparr> ar_id := Some ''audit_1714557700000_a1b2c3d4e'',
       createdAt := Some ''2024-05-01T10:01:40.000Z'', status := Some Completed \<rparr>)
     = status example_stored_audit"
    by (rule arg_cong)
  then show False by (simp add: example_stored_status)
qed

text \<open>
  Claim C6, amended. For every AuditResult record, saving it returns the generated
  identifier, and retrieving by that identifier yields the saved record with \<open>id\<close> set to
  the identifier, \<open>createdAt\<close> to the time of saving and \<open>status\<close> to completed: it equals
  the saved record in every other field.
\<close>

theorem save_then_get:
  "fst (saveAudit gid now audits_in a) = gid
   \<and> getAudit (snd (saveAudit gid now audits_in a)) (fst (saveAudit gid now audits_in a))
       = Some (a\<lparr> ar_id := Some gid, createdAt := Some now, status := Some Completed \<rparr>)
   \<and> (a\<lparr> ar_id := Some gid, createdAt := Some now, status := Some Completed \<rparr>)
        \<lparr> ar_id := ar_id a, createdAt := createdAt a, status := status a \<rparr> = a"
  by (simp add: saveAudit_def getAudit_def Let_def)

text \<open>
  Claim C10. For every identifier, \<open>deleteAudit\<close> returns true exactly when a record with
  that identifier was stored, and afterwards \<open>getAudit\<close> on it returns null while every
  other identifier is untouched; deleting an absent identifier returns false and leaves
  the stored records unchanged; a second delete of the same identifier returns false.
\<close>

theorem delete_audit:
  "fst (deleteAudit audits_in k) = (getAudit audits_in k \<noteq> None)
   \<and> getAudit (snd (deleteAudit audits_in k)) k = None
   \<and> (k' \<noteq> k \<longrightarrow> getAudit (snd (deleteAudit audits_in k)) k' = getAudit audits_in k')
   \<and> (getAudit audits_in k = None \<longrightarrow> deleteAudit audits_in k = (False, audits_in))
   \<and> fst (deleteAudit (snd (deleteAudit audits_in k)) k) = False"
  by (auto simp add: deleteAudit_def getAudit_def)

theorem delete_audit_witness:
  "''b'' \<noteq> ''a''
   \<and> getAudit (snd (deleteAudit [''a'' \<mapsto> example_audit, ''b'' \<mapsto> example_audit] ''a'')) ''b''
        = Some example_audit
   \<and> fst (deleteAudit [''a'' \<mapsto> example_audit, ''b'' \<mapsto> example_audit] ''a'') = True
   \<and> getAudit (snd (deleteAudit [''a'' \<mapsto> example_audit, ''b'' \<mapsto> example_audit] ''a'')) ''a''
        = None
   \<and> getAudit [''b'' \<mapsto> example_audit] ''a'' = None
   \<and> deleteAudit [''b'' \<mapsto> example_audit] ''a'' = (False, [''b'' \<mapsto> example_audit])"
proof -
  have 1: "''b'' \<noteq> ''a''" by simp
  have 2: "getAudit [''b'' \<mapsto> example_audit] ''a'' = None" by (simp add: getAudit_def)
  have 3: "getAudit [''a'' \<mapsto> example_audit, ''b'' \<mapsto> example_audit] ''a'' \<noteq> None"
    by (simp add: getAudit_def)
  have 4: "getAudit [''a'' \<mapsto> example_audit, ''b'' \<mapsto> example_audit] ''b'' = Some example_audit"
    by (simp add: getAudit_def)
  from 1 2 3 4
    delete_audit [of "[''a'' \<mapsto> example_audit, ''b'' \<mapsto> example_audit]" "''a''" "''b''"]
    delete_audit [of "[''b'' \<mapsto> example_audit]" "''a''" "''b''"]
  show ?thesis by simp
qed

section \<open>Audit service and audit run: properties\<close>

lemma invalid_input_iff: "invalid_input parse u = (\<not> isValidURL parse u)"
  by (auto simp add: invalid_input_def isValidURL_def split: option.splits)

text \<open>
  Claim C8. For every caller-supplied string that is malformed as a URL or whose scheme is
  neither http nor https, \<open>runAudit\<close> fails with the error "Invalid URL format" and leaves
  the world as it was: the browser is not touched and no record is saved.
\<close>

theorem invalid_url_rejected:
  "invalid_input (URL_protocol env) u
   \<longrightarrow> runAudit env w u options = (Inl (JsError ''Invalid URL format''), w)
       \<and> audits (snd (runAudit env w u options)) = audits w
       \<and> browser_log (snd (runAudit env w u options)) = browser_log w"
  by (simp add: invalid_input_iff runAudit_def)

theorem invalid_url_rejected_witness:
  "invalid_input (URL_protocol example_env) (js ''ftp://example.com/'')
   \<and> invalid_input (URL_protocol example_env) (js ''not a url'')
   \<and> runAudit example_env example_world (js ''ftp://example.com/'') None
        = (Inl (JsError ''Invalid URL format''), example_world)
   \<and> runAudit example_env example_world (js ''not a url'') None
        = (Inl (JsError ''Invalid URL format''), example_world)"
proof -
  have 1: "invalid_input (URL_protocol example_env) (js ''ftp://example.com/'')"
    by (simp add: invalid_input_def example_env_def js_def)
  have 2: "invalid_input (URL_protocol example_env) (js ''not a url'')"
    by (simp add: invalid_input_def example_env_def js_def)
  from 1 2
    invalid_url_rejected [of example_env "js ''ftp://example.com/''" example_world None]
    invalid_url_rejected [of example_env "js ''not a url''" example_world None]
  show ?thesis by blast
qed

lemma run_steps_ok:
  "\<forall>s\<in>set steps. fst s = None \<Longrightarrow> run_steps steps = (None, map snd steps)"
  by (induction steps) auto

lemma run_steps_fail:
  "\<not> (\<forall>s\<in>set steps. fst s = None) \<Longrightarrow>
   \<exists>e acts. run_steps steps = (Some e, acts) \<and> set acts \<subseteq> snd ` set steps"
proof (induction steps)
  case Nil
  then show ?case by simp
next
  case (Cons s steps)
  obtain outcome act where s: "s = (outcome, act)" by (cases s)
  show ?case
  proof (cases outcome)
    case (Some e)
    then show ?thesis using s by simp
  next
    case None
    then have "\<not> (\<forall>s\<in>set steps. fst s = None)" using Cons.prems s by simp
    from Cons.IH [OF this] obtain e acts
      where "run_steps steps = (Some e, acts)" "set acts \<subseteq> snd ` set steps" by blast
    then show ?thesis using s None by auto
  qed
qed

lemma reaches_split: "reaches_screenshots b u options = (opening_ok b \<and> block_ok b u options)"
  by (auto simp add: reaches_screenshots_def opening_ok_def block_ok_def)

lemma opening_steps_ok:
  "opening_ok b \<Longrightarrow>
   run_steps [(getBrowser b, GetBrowser), (newContext b, NewContext), (newPage b, NewPage)]
     = (None, [GetBrowser, NewContext, NewPage])"
  by (simp add: opening_ok_def)

lemma opening_steps_fail:
  "\<not> opening_ok b \<Longrightarrow>
   \<exists>e acts. run_steps [(getBrowser b, GetBrowser), (newContext b, NewContext), (newPage b, NewPage)]
     = (Some e, acts) \<and> Screenshot \<notin> set acts"
proof -
  assume "\<not> opening_ok b"
  then have "\<not> (\<forall>s\<in>set [(getBrowser b, GetBrowser), (newContext b, NewContext), (newPage b, NewPage)]. fst s = None)"
    by (simp add: opening_ok_def)
  from run_steps_fail [OF this] show ?thesis by auto
qed

lemma block_steps_ok:
  "block_ok b u options \<Longrightarrow>
   run_steps
     [(goto b u (navigation_timeout options), Goto u (navigation_timeout options)),
      (waitForSelector b, WaitForSelector),
      (analyzeSEO_throws b, QuerySEO),
      (analyzeTechnical_throws b, QueryTechnical),
      (analyzeContent_throws b, QueryContent),
      (analyzePerformance_throws b, QueryPerformance)]
   = (None, [Goto u (navigation_timeout options), WaitForSelector, QuerySEO, QueryTechnical,
             QueryContent, QueryPerformance])"
  by (simp add: block_ok_def)

lemma block_steps_fail:
  "\<not> block_ok b u options \<Longrightarrow>
   \<exists>e acts. run_steps
     [(goto b u (navigation_timeout options), Goto u (navigation_timeout options)),
      (waitForSelector b, WaitForSelector),
      (analyzeSEO_throws b, QuerySEO),
      (analyzeTechnical_throws b, QueryTechnical),
      (analyzeContent_throws b, QueryContent),
      (analyzePerformance_throws b, QueryPerformance)]
   = (Some e, acts) \<and> Screenshot \<notin> set acts"
proof -
  assume "\<not> block_ok b u options"
  then have "\<not> (\<forall>s\<in>set [(goto b u (navigation_timeout options), Goto u (navigation_timeout options)),
      (waitForSelector b, WaitForSelector),
      (analyzeSEO_throws b, QuerySEO),
      (analyzeTechnical_throws b, QueryTechnical),
      (analyzeContent_throws b, QueryContent),
      (analyzePerformance_throws b, QueryPerformance)]. fst s = None)"
    by (simp add: block_ok_def)
  from run_steps_fail [OF this] show ?thesis by auto
qed

lemma capture_result:
  "fst (captureScreenshots b) = (if capture_succeeds b then Inr (both_screenshots b)
     else fst (captureScreenshots b))
   \<and> (\<not> capture_succeeds b \<longrightarrow> isl (fst (captureScreenshots b)))
   \<and> Screenshot \<in> set (snd (captureScreenshots b))"
  by (auto simp add: captureScreenshots_def capture_succeeds_def both_screenshots_def
      split: sum.splits option.splits)

lemma assemble_screenshots: "screenshots (assemble b u sh) = sh"
  by (simp add: assemble_def Let_def)

lemma wants_iff: "wantsScreenshots options = (\<not> screenshots_disabled options)"
  by (simp add: wantsScreenshots_def screenshots_disabled_def split: option.splits)

lemma returned_isl: "isl r \<Longrightarrow> returned_screenshots r = None"
  by (cases r) simp_all

lemma audit_page_fail:
  "\<not> block_ok b u options \<Longrightarrow>
   returned_screenshots (fst (audit_page b u options)) = None
   \<and> Screenshot \<notin> set (snd (audit_page b u options))"
proof -
  assume "\<not> block_ok b u options"
  from block_steps_fail [OF this] obtain e acts where
    "run_steps
     [(goto b u (navigation_timeout options), Goto u (navigation_timeout options)),
      (waitForSelector b, WaitForSelector),
      (analyzeSEO_throws b, QuerySEO),
      (analyzeTechnical_throws b, QueryTechnical),
      (analyzeContent_throws b, QueryContent),
      (analyzePerformance_throws b, QueryPerformance)] = (Some e, acts)"
    "Screenshot \<notin> set acts" by blast
  then show ?thesis unfolding audit_page_def by (simp del: run_steps.simps)
qed

lemma audit_page_ok:
  assumes "block_ok b u options"
  shows "returned_screenshots (fst (audit_page b u options)) =
     (if screenshots_disabled options then Some (no_screenshots b)
      else if capture_succeeds b then Some (both_screenshots b) else None)"
    and "(Screenshot \<in> set (snd (audit_page b u options))) = (\<not> screenshots_disabled options)"
proof -
  obtain res shot_acts where c: "captureScreenshots b = (res, shot_acts)"
    by (cases "captureScreenshots b")
  have r1: "capture_succeeds b \<Longrightarrow> res = Inr (both_screenshots b)"
    using capture_result [of b] c by simp
  have r2: "\<not> capture_succeeds b \<Longrightarrow> isl res"
    using capture_result [of b] c by simp
  have r3: "Screenshot \<in> set shot_acts"
    using capture_result [of b] c by simp
  show "returned_screenshots (fst (audit_page b u options)) =
     (if screenshots_disabled options then Some (no_screenshots b)
      else if capture_succeeds b then Some (both_screenshots b) else None)"
    using r1 r2 c unfolding audit_page_def block_steps_ok [OF assms]
    by (cases res) (auto simp add: wants_iff no_screenshots_def assemble_screenshots)
  show "(Screenshot \<in> set (snd (audit_page b u options))) = (\<not> screenshots_disabled options)"
    using r3 c unfolding audit_page_def block_steps_ok [OF assms]
    by (cases res) (auto simp add: wants_iff)
qed

lemma finally_close_returned:
  "returned_screenshots (fst (finally_close b r)) =
     (if closeContext b = None then returned_screenshots (fst r) else None)"
  by (auto simp add: finally_close_def split: option.splits)

lemma finally_close_actions:
  "(Screenshot \<in> set (snd (finally_close b r))) = (Screenshot \<in> set (snd r))"
  by (auto simp add: finally_close_def split: option.splits)

lemma run_returned:
  "returned_screenshots (fst (runPlaywrightAudit b u options)) =
     (if run_completes b u options
      then Some (if screenshots_disabled options then no_screenshots b else both_screenshots b)
      else None)"
proof (cases "opening_ok b")
  case False
  from opening_steps_fail [OF this] obtain e acts where
    "run_steps [(getBrowser b, GetBrowser), (newContext b, NewContext), (newPage b, NewPage)]
       = (Some e, acts)" by blast
  then show ?thesis using False unfolding runPlaywrightAudit_def
    by (simp add: run_completes_def reaches_split del: run_steps.simps)
next
  case True
  have run: "fst (runPlaywrightAudit b u options) = fst (finally_close b (audit_page b u options))"
    unfolding runPlaywrightAudit_def opening_steps_ok [OF True]
    by (simp split: prod.splits)
  show ?thesis
  proof (cases "block_ok b u options")
    case False
    then show ?thesis using True audit_page_fail [OF False]
      by (simp add: run finally_close_returned run_completes_def reaches_split)
  next
    case bo: True
    show ?thesis using True bo
      by (simp add: run finally_close_returned audit_page_ok(1) [OF bo] run_completes_def
          reaches_split)
  qed
qed

lemma run_actions:
  "(Screenshot \<in> set (snd (runPlaywrightAudit b u options)))
     = (reaches_screenshots b u options \<and> \<not> screenshots_disabled options)"
proof (cases "opening_ok b")
  case False
  from opening_steps_fail [OF this] obtain e acts where
    "run_steps [(getBrowser b, GetBrowser), (newContext b, NewContext), (newPage b, NewPage)]
       = (Some e, acts)" "Screenshot \<notin> set acts" by blast
  then show ?thesis using False unfolding runPlaywrightAudit_def
    by (simp add: reaches_split del: run_steps.simps)
next
  case True
  have run: "snd (runPlaywrightAudit b u options) =
     [GetBrowser, NewContext, NewPage] @ snd (finally_close b (audit_page b u options))"
    unfolding runPlaywrightAudit_def opening_steps_ok [OF True]
    by (simp split: prod.splits)
  show ?thesis
  proof (cases "block_ok b u options")
    case False
    then show ?thesis using True audit_page_fail [OF False]
      by (simp add: run finally_close_actions reaches_split)
  next
    case bo: True
    show ?thesis using True bo
      by (simp add: run finally_close_actions audit_page_ok(2) [OF bo] reaches_split)
  qed
qed

text \<open>
  Claim C9. When the options object is absent, or its \<open>includeScreenshots\<close> field is
  undefined, screenshots are captured; capture is off exactly when the options object is
  present with \<open>includeScreenshots\<close> equal to false. A run returns a record exactly when
  every awaited step succeeds, and the record then holds both captured images unless
  capture is off, in which case it holds none. The browser is asked for a screenshot
  exactly when the run reaches the decision and capture is not off.
\<close>

theorem screenshots_on_unless_false:
  "wantsScreenshots None
   \<and> (includeScreenshots opts = None \<longrightarrow> wantsScreenshots (Some opts))
   \<and> wantsScreenshots options = (\<not> screenshots_disabled options)
   \<and> returned_screenshots (fst (runPlaywrightAudit b u options)) =
       (if run_completes b u options
        then Some (if screenshots_disabled options then no_screenshots b else both_screenshots b)
        else None)
   \<and> (Screenshot \<in> set (snd (runPlaywrightAudit b u options)))
       = (reaches_screenshots b u options \<and> \<not> screenshots_disabled options)"
proof -
  have a: "wantsScreenshots None" by (simp add: wantsScreenshots_def)
  have b: "includeScreenshots opts = None \<longrightarrow> wantsScreenshots (Some opts)"
    by (simp add: wantsScreenshots_def)
  from a b wants_iff [of options] run_returned [of b u options] run_actions [of b u options]
  show ?thesis by blast
qed

lemma example_completes: "run_completes example_browser example_url options"
  by (simp add: run_completes_def reaches_screenshots_def capture_succeeds_def example_browser_def)

lemma example_reaches: "reaches_screenshots example_browser example_url options"
  by (simp add: reaches_screenshots_def example_browser_def)

lemma example_both:
  "both_screenshots example_browser =
     \<lparr> desktop = Some ''data:image/png;base64,iVBORw0KGgo='',
       mobile = Some ''data:image/png;base64,iVBORw0KGgp='',
       shot_timestamp = ''2024-05-01T10:00:02.000Z'' \<rparr>"
  by (simp add: both_screenshots_def example_browser_def)

lemma example_none:
  "no_screenshots example_browser =
     \<lparr> desktop = None, mobile = None, shot_timestamp = ''2024-05-01T10:00:01.000Z'' \<rparr>"
  by (simp add: no_screenshots_def example_browser_def)

theorem screenshots_on_unless_false_witness:
  "includeScreenshots opts_undefined = None
   \<and> wantsScreenshots (Some opts_undefined)
   \<and> returned_screenshots (fst (runPlaywrightAudit example_browser example_url None))
       = Some \<lparr> desktop = Some ''data:image/png;base64,iVBORw0KGgo='',
                mobile = Some ''data:image/png;base64,iVBORw0KGgp='',
                shot_timestamp = ''2024-05-01T10:00:02.000Z'' \<rparr>
   \<and> returned_screenshots
         (fst (runPlaywrightAudit example_browser example_url (Some opts_undefined)))
       = Some \<lparr> desktop = Some ''data:image/png;base64,iVBORw0KGgo='',
                mobile = Some ''data:image/png;base64,iVBORw0KGgp='',
                shot_timestamp = ''2024-05-01T10:00:02.000Z'' \<rparr>
   \<and> returned_screenshots
         (fst (runPlaywrightAudit example_browser example_url (Some opts_false)))
       = Some \<lparr> desktop = None, mobile = None, shot_timestamp = ''2024-05-01T10:00:01.000Z'' \<rparr>
   \<and> Screenshot \<in> set (snd (runPlaywrightAudit example_browser example_url None))
   \<and> Screenshot \<in> set (snd (runPlaywrightAudit example_browser example_url (Some opts_undefined)))
   \<and> Screenshot \<notin> set (snd (runPlaywrightAudit example_browser example_url (Some opts_false)))"
proof -
  have 1: "includeScreenshots opts_undefined = None" by (simp add: opts_undefined_def)
  have 2: "\<not> screenshots_disabled None" by (simp add: screenshots_disabled_def)
  have 3: "\<not> screenshots_disabled (Some opts_undefined)"
    by (simp add: screenshots_disabled_def opts_undefined_def)
  have 4: "screenshots_disabled (Some opts_false)"
    by (simp add: screenshots_disabled_def opts_false_def)
  from 1 2 3 4 example_completes example_reaches example_both example_none
    screenshots_on_unless_false [of opts_undefined None example_browser example_url]
    screenshots_on_unless_false [of opts_undefined "Some opts_undefined" example_browser
      example_url]
    screenshots_on_unless_false [of opts_undefined "Some opts_false" example_browser example_url]
  show ?thesis by simp
qed

end
